theory Spec2Isabelle
  imports Main "HOL-Library.Word"
begin

unbundle bit_operations_syntax

section \<open>Renesas R-Car MIPI CSI-2 receiver: the driver as HOL functions\<close>

text \<open>
  The theory embeds \<^verbatim>\<open>drivers/media/platform/rcar-vin/rcar-csi2.c\<close>.
  Every C function that the properties below talk about is a HOL function of the same
  name. What a C function does to the outside world (register accesses, sleeps, log lines,
  runtime-PM and reset calls, calls into the remote subdevice, the mutex) is recorded, in
  program order, in a list of events that the function takes and returns extended.
  A C \<^verbatim>\<open>int\<close> return code is an \<^typ>\<open>int\<close>; the values that the device hands
  back on a register read are not known to the driver and come from an oracle
  (the field \<open>base\<close> of the device record) that sees the whole history.
\<close>

type_synonym u8 = "8 word"
type_synonym u16 = "16 word"
type_synonym u32 = "32 word"
type_synonym u64 = "64 word"

subsection \<open>Kernel constants used by the file\<close>

text \<open>The errno numbers of \<^verbatim>\<open>include/uapi/asm-generic/errno*.h\<close> and
  \<^verbatim>\<open>include/linux/errno.h\<close>.\<close>

definition ENODEV :: int where "ENODEV = 19"
definition EINVAL :: int where "EINVAL = 22"
definition ERANGE :: int where "ERANGE = 34"
definition ENOTCONN :: int where "ENOTCONN = 107"
definition ETIMEDOUT :: int where "ETIMEDOUT = 110"
definition ENOIOCTLCMD :: int where "ENOIOCTLCMD = 515"

subsection \<open>Observable events\<close>

datatype event =
    Iowrite32 nat u32
  | Iowrite16 nat u16
  | Ioread32 nat u32
  | Ioread16 nat u16
  | Usleep_range nat nat
  | Dev_warn string
  | Dev_err string
  | Dev_info string
  | Pm_runtime_get_sync
  | Pm_runtime_put
  | Reset_control_assert
  | Reset_control_deassert
  | Remote_get_mbus_config
  | Remote_s_stream int
  | Csi2cam_start
  | Csi2cam_stop
  | Mutex_lock
  | Mutex_unlock

type_synonym trace = "event list"

subsection \<open>Data structures\<close>

record phtw_value =
  data :: u16
  code :: u16

abbreviation PV :: "u16 \<Rightarrow> u16 \<Rightarrow> phtw_value" where
  "PV d c \<equiv> \<lparr>data = d, code = c\<rparr>"

record rcsi2_mbps_reg =
  mbps :: u16
  reg :: u16

abbreviation MR :: "u16 \<Rightarrow> u16 \<Rightarrow> rcsi2_mbps_reg" where
  "MR m r \<equiv> \<lparr>mbps = m, reg = r\<rparr>"

record rcsi2_cphy_setting =
  msps :: u16
  rw_hs_rx_2 :: u16
  rw_trio_0 :: u16
  rw_trio_1 :: u16
  rw_trio_2 :: u16
  afe_lane0_29 :: u16
  afe_lane0_27 :: u16

abbreviation CSI2_CPHY_SETTING ::
  "u16 \<Rightarrow> u16 \<Rightarrow> u16 \<Rightarrow> u16 \<Rightarrow> u16 \<Rightarrow> u16 \<Rightarrow> u16 \<Rightarrow> rcsi2_cphy_setting" where
  "CSI2_CPHY_SETTING ms rx2 t0 t1 t2 a29 a27 \<equiv>
     \<lparr>msps = ms, rw_hs_rx_2 = rx2, rw_trio_0 = t0, rw_trio_1 = t1, rw_trio_2 = t2,
      afe_lane0_29 = a29, afe_lane0_27 = a27\<rparr>"

record rcar_csi2_format =
  format_code :: u32
  format_datatype :: u32
  bpp :: u32

record rcar_csi2_pin_swap =
  swap_code :: u8
  rw_cfg0_b2_0 :: u32
  rw_cfg0_b3 :: u32
  afe_clane_29_b8 :: u32

record rcar_csi2_cphy_specific =
  trio :: u8
  hs_receive_reg :: nat
  pin_swap_reg :: nat
  ctrl27_reg :: nat
  rwconf_reg :: nat

text \<open>The three feature bits of \<^verbatim>\<open>rcar-vin.h\<close> that \<^verbatim>\<open>info->features\<close> is
  tested against; the word is modelled as the set of the bits that are set.\<close>

datatype feature =
    RCAR_VIN_R8A779G0_FEATURE
  | RCAR_VIN_R8A779H0_FEATURE
  | RCAR_VIN_R8A78000_FEATURE

text \<open>The function pointers of \<^verbatim>\<open>struct rcar_csi2_info\<close> name one of the functions
  of the file; \<open>None\<close> is the NULL pointer.\<close>

datatype init_phtw_fn =
    Init_phtw_h3_v3h_m3n
  | Init_phtw_h3es2
  | Init_phtw_v3m_e3
  | Init_phtw_v3u
  | Init_phtw_v4m

datatype phy_post_init_fn = Phy_post_init_v3m_e3

record rcar_csi2_info =
  init_phtw :: "init_phtw_fn option"
  phy_post_init :: "phy_post_init_fn option"
  hsfreqrange :: "rcsi2_mbps_reg list option"
  csi0clkfreqrange :: u32
  num_channels :: nat
  features :: "feature set"
  clear_ulps :: bool
  no_use_vdt :: bool
  has_phyfrx_reg :: bool
  osc_freq_target :: "rcsi2_mbps_reg list option"

datatype v4l2_mbus_type =
    V4L2_MBUS_UNKNOWN
  | V4L2_MBUS_PARALLEL
  | V4L2_MBUS_BT656
  | V4L2_MBUS_CSI1
  | V4L2_MBUS_CCP2
  | V4L2_MBUS_CSI2_DPHY
  | V4L2_MBUS_CSI2_CPHY

record v4l2_mbus_framefmt =
  width :: u32
  height :: u32
  mbus_code :: u32
  mbus_field :: u32

text \<open>
  The remote subdevice, as far as the driver looks at it: the value of its
  \<^verbatim>\<open>V4L2_CID_PIXEL_RATE\<close> control (\<open>None\<close> when \<^verbatim>\<open>v4l2_ctrl_find\<close> finds none;
  the signed 64-bit value is kept as its bit pattern), what its \<^verbatim>\<open>get_mbus_config\<close> pad
  operation returns (return code, bus type, flags), and the return code of its
  \<^verbatim>\<open>s_stream\<close> video operation, which may depend on everything that happened before.
\<close>

record v4l2_subdev =
  pixel_rate :: "u64 option"
  get_mbus_config :: "int \<times> v4l2_mbus_type \<times> u32"
  s_stream :: "trace \<Rightarrow> int \<Rightarrow> int"

text \<open>
  \<^verbatim>\<open>struct rcar_csi2\<close>. Arrays of fixed size are functions of the index. The fields
  after \<open>hs_receive_eq\<close> are not fields of the C structure but what the file takes from
  outside: \<open>base\<close> answers a register read (\<^verbatim>\<open>ioread32(priv->base + reg)\<close>) from the
  history and the offset; \<open>cam_start\<close> is the return code of \<^verbatim>\<open>csi2cam_start\<close>;
  \<open>cphy_base\<close> is the 32-bit divisor that the kernel macro \<^verbatim>\<open>do_div\<close> makes of the
  constant \<^verbatim>\<open>2.8\<close> handed to it in \<^verbatim>\<open>rcsi2_start_receiver_v4h\<close>; \<open>uninit_ret\<close> and
  \<open>uninit_osc_freq\<close> are the contents of the locals \<^verbatim>\<open>ret\<close> and
  \<^verbatim>\<open>osc_freq\<close> of \<^verbatim>\<open>rcsi2_init_phtw_v4m\<close> where the function reads them
  before it has written them.
\<close>

record rcar_csi2 =
  info :: rcar_csi2_info
  remote :: "v4l2_subdev option"
  mf :: v4l2_mbus_framefmt
  stream_count :: int
  lanes :: u16
  lane_swap :: "nat \<Rightarrow> u8"
  cphy_connection :: bool
  pin_swap :: bool
  pin_swap_rx_order :: "nat \<Rightarrow> u32"
  hs_receive_eq :: "nat \<Rightarrow> u32"
  base :: "trace \<Rightarrow> nat \<Rightarrow> u32"
  cam_start :: "trace \<Rightarrow> int"
  cphy_base :: u32
  uninit_ret :: int
  uninit_osc_freq :: u16

subsection \<open>Register access\<close>

definition rcsi2_read :: "rcar_csi2 \<Rightarrow> nat \<Rightarrow> trace \<Rightarrow> u32 \<times> trace" where
  "rcsi2_read priv r t = (let v = base priv t r in (v, t @ [Ioread32 r v]))"

definition rcsi2_write :: "rcar_csi2 \<Rightarrow> nat \<Rightarrow> u32 \<Rightarrow> trace \<Rightarrow> trace" where
  "rcsi2_write priv r d t = t @ [Iowrite32 r d]"

definition rcsi2_modify :: "rcar_csi2 \<Rightarrow> nat \<Rightarrow> u32 \<Rightarrow> u32 \<Rightarrow> trace \<Rightarrow> trace" where
  "rcsi2_modify priv r d msk t =
     (case rcsi2_read priv r t of (val, t) \<Rightarrow>
        rcsi2_write priv r ((val AND NOT msk) OR d) t)"

definition rcsi2_read16 :: "rcar_csi2 \<Rightarrow> nat \<Rightarrow> trace \<Rightarrow> u16 \<times> trace" where
  "rcsi2_read16 priv r t = (let v = ucast (base priv t r) in (v, t @ [Ioread16 r v]))"

definition rcsi2_write16 :: "rcar_csi2 \<Rightarrow> nat \<Rightarrow> u16 \<Rightarrow> trace \<Rightarrow> trace" where
  "rcsi2_write16 priv r d t = t @ [Iowrite16 r d]"

definition rcsi2_modify16 :: "rcar_csi2 \<Rightarrow> nat \<Rightarrow> u16 \<Rightarrow> u16 \<Rightarrow> trace \<Rightarrow> trace" where
  "rcsi2_modify16 priv r d msk t =
     (case rcsi2_read16 priv r t of (val, t) \<Rightarrow>
        rcsi2_write16 priv r ((val AND NOT msk) OR d) t)"

definition usleep_range :: "nat \<Rightarrow> nat \<Rightarrow> trace \<Rightarrow> trace" where
  "usleep_range lo hi t = t @ [Usleep_range lo hi]"

definition dev_warn :: "string \<Rightarrow> trace \<Rightarrow> trace" where
  "dev_warn msg t = t @ [Dev_warn msg]"

definition dev_err :: "string \<Rightarrow> trace \<Rightarrow> trace" where
  "dev_err msg t = t @ [Dev_err msg]"

definition dev_info :: "string \<Rightarrow> trace \<Rightarrow> trace" where
  "dev_info msg t = t @ [Dev_info msg]"

subsection \<open>The speed tables\<close>

text \<open>Each table is the C array, entry for entry, with its closing all-zero sentinel.\<close>

definition phtw_mbps_v3u :: "rcsi2_mbps_reg list" where
  "phtw_mbps_v3u = [
    MR 1500 0xcc, MR 1550 0x1d, MR 1600 0x27, MR 1650 0x30,
    MR 1700 0x39, MR 1750 0x42, MR 1800 0x4b, MR 1850 0x55,
    MR 1900 0x5e, MR 1950 0x67, MR 2000 0x71, MR 2050 0x79,
    MR 2100 0x83, MR 2150 0x8c, MR 2200 0x95, MR 2250 0x9e,
    MR 2300 0xa7, MR 2350 0xb0, MR 2400 0xba, MR 2450 0xc3,
    MR 2500 0xcc, MR 0 0]"

definition phtw_mbps_h3_v3h_m3n :: "rcsi2_mbps_reg list" where
  "phtw_mbps_h3_v3h_m3n = [
    MR 80 0x86, MR 90 0x86, MR 100 0x87, MR 110 0x87,
    MR 120 0x88, MR 130 0x88, MR 140 0x89, MR 150 0x89,
    MR 160 0x8a, MR 170 0x8a, MR 180 0x8b, MR 190 0x8b,
    MR 205 0x8c, MR 220 0x8d, MR 235 0x8e, MR 250 0x8e,
    MR 0 0]"

definition phtw_mbps_v3m_e3 :: "rcsi2_mbps_reg list" where
  "phtw_mbps_v3m_e3 = [
    MR 80 0x00, MR 90 0x20, MR 100 0x40, MR 110 0x02,
    MR 130 0x22, MR 140 0x42, MR 150 0x04, MR 170 0x24,
    MR 180 0x44, MR 200 0x06, MR 220 0x26, MR 240 0x46,
    MR 250 0x08, MR 270 0x28, MR 300 0x0a, MR 330 0x2a,
    MR 360 0x4a, MR 400 0x0c, MR 450 0x2c, MR 500 0x0e,
    MR 550 0x2e, MR 600 0x10, MR 650 0x30, MR 700 0x12,
    MR 750 0x32, MR 800 0x52, MR 850 0x72, MR 900 0x14,
    MR 950 0x34, MR 1000 0x54, MR 1050 0x74, MR 1125 0x16,
    MR 0 0]"

definition hsfreqrange_v3u :: "rcsi2_mbps_reg list" where
  "hsfreqrange_v3u = [
    MR 80 0x00, MR 90 0x10, MR 100 0x20, MR 110 0x30,
    MR 120 0x01, MR 130 0x11, MR 140 0x21, MR 150 0x31,
    MR 160 0x02, MR 170 0x12, MR 180 0x22, MR 190 0x32,
    MR 205 0x03, MR 220 0x13, MR 235 0x23, MR 250 0x33,
    MR 275 0x04, MR 300 0x14, MR 325 0x25, MR 350 0x35,
    MR 400 0x05, MR 450 0x16, MR 500 0x26, MR 550 0x37,
    MR 600 0x07, MR 650 0x18, MR 700 0x28, MR 750 0x39,
    MR 800 0x09, MR 850 0x19, MR 900 0x29, MR 950 0x3a,
    MR 1000 0x0a, MR 1050 0x1a, MR 1100 0x2a, MR 1150 0x3b,
    MR 1200 0x0b, MR 1250 0x1b, MR 1300 0x2b, MR 1350 0x3c,
    MR 1400 0x0c, MR 1450 0x1c, MR 1500 0x2c, MR 1550 0x3d,
    MR 1600 0x0d, MR 1650 0x1d, MR 1700 0x2e, MR 1750 0x3e,
    MR 1800 0x0e, MR 1850 0x1e, MR 1900 0x2f, MR 1950 0x3f,
    MR 2000 0x0f, MR 2050 0x40, MR 2100 0x41, MR 2150 0x42,
    MR 2200 0x43, MR 2300 0x45, MR 2350 0x46, MR 2400 0x47,
    MR 2450 0x48, MR 2500 0x49, MR 0 0]"

definition hsfreqrange_h3_v3h_m3n :: "rcsi2_mbps_reg list" where
  "hsfreqrange_h3_v3h_m3n = [
    MR 80 0x00, MR 90 0x10, MR 100 0x20, MR 110 0x30,
    MR 120 0x01, MR 130 0x11, MR 140 0x21, MR 150 0x31,
    MR 160 0x02, MR 170 0x12, MR 180 0x22, MR 190 0x32,
    MR 205 0x03, MR 220 0x13, MR 235 0x23, MR 250 0x33,
    MR 275 0x04, MR 300 0x14, MR 325 0x25, MR 350 0x35,
    MR 400 0x05, MR 450 0x16, MR 500 0x26, MR 550 0x37,
    MR 600 0x07, MR 650 0x18, MR 700 0x28, MR 750 0x39,
    MR 800 0x09, MR 850 0x19, MR 900 0x29, MR 950 0x3a,
    MR 1000 0x0a, MR 1050 0x1a, MR 1100 0x2a, MR 1150 0x3b,
    MR 1200 0x0b, MR 1250 0x1b, MR 1300 0x2b, MR 1350 0x3c,
    MR 1400 0x0c, MR 1450 0x1c, MR 1500 0x2c, MR 0 0]"

definition hsfreqrange_m3w_h3es1 :: "rcsi2_mbps_reg list" where
  "hsfreqrange_m3w_h3es1 = [
    MR 80 0x00, MR 90 0x10, MR 100 0x20, MR 110 0x30,
    MR 120 0x01, MR 130 0x11, MR 140 0x21, MR 150 0x31,
    MR 160 0x02, MR 170 0x12, MR 180 0x22, MR 190 0x32,
    MR 205 0x03, MR 220 0x13, MR 235 0x23, MR 250 0x33,
    MR 275 0x04, MR 300 0x14, MR 325 0x05, MR 350 0x15,
    MR 400 0x25, MR 450 0x06, MR 500 0x16, MR 550 0x07,
    MR 600 0x17, MR 650 0x08, MR 700 0x18, MR 750 0x09,
    MR 800 0x19, MR 850 0x29, MR 900 0x39, MR 950 0x0a,
    MR 1000 0x1a, MR 1050 0x2a, MR 1100 0x3a, MR 1150 0x0b,
    MR 1200 0x1b, MR 1250 0x2b, MR 1300 0x3b, MR 1350 0x0c,
    MR 1400 0x1c, MR 1450 0x2c, MR 1500 0x3c, MR 0 0]"

definition hsfreqrange_v4m :: "rcsi2_mbps_reg list" where
  "hsfreqrange_v4m = [
    MR 80 0x00, MR 90 0x10, MR 100 0x20, MR 110 0x30,
    MR 120 0x01, MR 130 0x11, MR 140 0x21, MR 150 0x31,
    MR 160 0x02, MR 170 0x12, MR 180 0x22, MR 190 0x32,
    MR 205 0x03, MR 220 0x13, MR 235 0x23, MR 250 0x33,
    MR 275 0x04, MR 300 0x14, MR 325 0x25, MR 350 0x35,
    MR 400 0x05, MR 450 0x16, MR 500 0x26, MR 550 0x37,
    MR 600 0x07, MR 650 0x18, MR 700 0x28, MR 750 0x39,
    MR 800 0x09, MR 850 0x19, MR 900 0x29, MR 950 0x3a,
    MR 1000 0x0a, MR 1050 0x1a, MR 1100 0x2a, MR 1150 0x3b,
    MR 1200 0x0b, MR 1250 0x1b, MR 1300 0x2b, MR 1350 0x3c,
    MR 1400 0x0c, MR 1450 0x1c, MR 1500 0x2c, MR 1550 0x3d,
    MR 1600 0x0d, MR 1650 0x1d, MR 1700 0x2e, MR 1750 0x3e,
    MR 1800 0x0e, MR 1850 0x1e, MR 1900 0x2f, MR 1950 0x3f,
    MR 2000 0x0f, MR 2050 0x40, MR 2100 0x41, MR 2150 0x42,
    MR 2200 0x43, MR 2250 0x44, MR 2300 0x45, MR 2350 0x46,
    MR 2400 0x47, MR 2450 0x48, MR 2500 0x49, MR 0 0]"

definition osc_freq_target_v4m :: "rcsi2_mbps_reg list" where
  "osc_freq_target_v4m = [
    MR 80 0x1a9, MR 90 0x1a9, MR 100 0x1a9, MR 110 0x1a9,
    MR 120 0x1a9, MR 130 0x1a9, MR 140 0x1a9, MR 150 0x1a9,
    MR 160 0x1a9, MR 170 0x1a9, MR 180 0x1a9, MR 190 0x1a9,
    MR 205 0x1a9, MR 220 0x1a9, MR 235 0x1a9, MR 250 0x1a9,
    MR 275 0x1a9, MR 300 0x1a9, MR 325 0x1a9, MR 350 0x1a9,
    MR 400 0x1a9, MR 450 0x1a9, MR 500 0x1a9, MR 550 0x1a9,
    MR 600 0x1a9, MR 650 0x1a9, MR 700 0x1a9, MR 750 0x1a9,
    MR 800 0x1a9, MR 850 0x1a9, MR 900 0x1a9, MR 950 0x1a9,
    MR 1000 0x1a9, MR 1050 0x1a9, MR 1100 0x1a9, MR 1150 0x1a9,
    MR 1200 0x1a9, MR 1250 0x1a9, MR 1300 0x1a9, MR 1350 0x1a9,
    MR 1400 0x1a9, MR 1450 0x1a9, MR 1500 0x1a9, MR 1550 0x108,
    MR 1600 0x110, MR 1650 0x119, MR 1700 0x121, MR 1750 0x12a,
    MR 1800 0x132, MR 1850 0x13b, MR 1900 0x143, MR 1950 0x14c,
    MR 2000 0x154, MR 2050 0x15d, MR 2100 0x165, MR 2150 0x16e,
    MR 2200 0x176, MR 2250 0x17f, MR 2300 0x187, MR 2350 0x190,
    MR 2400 0x198, MR 2450 0x1a1, MR 2500 0x1a9, MR 0 0]"

definition cphy_setting_table_r8a779g0 :: "rcsi2_cphy_setting list" where
  "cphy_setting_table_r8a779g0 = [
    CSI2_CPHY_SETTING 80 0x0038 0x0200 0x0134 0x006a 0x0000 0x0000,
    CSI2_CPHY_SETTING 100 0x0038 0x0200 0x00f5 0x0055 0x0000 0x0000,
    CSI2_CPHY_SETTING 200 0x0038 0x0200 0x0077 0x002b 0x0000 0x0000,
    CSI2_CPHY_SETTING 300 0x0038 0x0200 0x004d 0x001d 0x0000 0x0000,
    CSI2_CPHY_SETTING 400 0x0038 0x0200 0x0038 0x0016 0x0000 0x0000,
    CSI2_CPHY_SETTING 500 0x0038 0x0200 0x002c 0x0012 0x0000 0x0000,
    CSI2_CPHY_SETTING 600 0x0038 0x0200 0x0023 0x000f 0x0000 0x0000,
    CSI2_CPHY_SETTING 700 0x0038 0x0200 0x001d 0x000d 0x0000 0x0000,
    CSI2_CPHY_SETTING 800 0x0038 0x0200 0x0019 0x000c 0x0000 0x0000,
    CSI2_CPHY_SETTING 900 0x0038 0x0200 0x0015 0x000b 0x0000 0x0000,
    CSI2_CPHY_SETTING 1000 0x003e 0x0200 0x0013 0x000a 0x0000 0x0400,
    CSI2_CPHY_SETTING 1100 0x0044 0x0200 0x0010 0x0009 0x0000 0x0800,
    CSI2_CPHY_SETTING 1200 0x004a 0x0200 0x000e 0x0008 0x0000 0x0c00,
    CSI2_CPHY_SETTING 1300 0x0051 0x0200 0x000d 0x0008 0x0000 0x0c00,
    CSI2_CPHY_SETTING 1400 0x0057 0x0200 0x000b 0x0007 0x0000 0x1000,
    CSI2_CPHY_SETTING 1500 0x005d 0x0400 0x000a 0x0007 0x0000 0x1000,
    CSI2_CPHY_SETTING 1600 0x0063 0x0400 0x0009 0x0007 0x0000 0x1400,
    CSI2_CPHY_SETTING 1700 0x006a 0x0400 0x0008 0x0006 0x0000 0x1400,
    CSI2_CPHY_SETTING 1800 0x0070 0x0400 0x0007 0x0006 0x0000 0x1400,
    CSI2_CPHY_SETTING 1900 0x0076 0x0400 0x0007 0x0006 0x0000 0x1400,
    CSI2_CPHY_SETTING 2000 0x007c 0x0400 0x0006 0x0006 0x0000 0x1800,
    CSI2_CPHY_SETTING 2100 0x0083 0x0400 0x0005 0x0005 0x0000 0x1800,
    CSI2_CPHY_SETTING 2200 0x0089 0x0600 0x0005 0x0005 0x0000 0x1800,
    CSI2_CPHY_SETTING 2300 0x008f 0x0600 0x0004 0x0005 0x0000 0x1800,
    CSI2_CPHY_SETTING 2400 0x0095 0x0600 0x0004 0x0005 0x0000 0x1800,
    CSI2_CPHY_SETTING 2500 0x009c 0x0600 0x0004 0x0005 0x0000 0x1c00,
    CSI2_CPHY_SETTING 2600 0x00a2 0x0600 0x0003 0x0005 0x0010 0x1c00,
    CSI2_CPHY_SETTING 2700 0x00a8 0x0600 0x0003 0x0005 0x0010 0x1c00,
    CSI2_CPHY_SETTING 2800 0x00ae 0x0600 0x0002 0x0004 0x0010 0x1c00,
    CSI2_CPHY_SETTING 2900 0x00b5 0x0800 0x0002 0x0004 0x0010 0x1c00,
    CSI2_CPHY_SETTING 3000 0x00bb 0x0800 0x0002 0x0004 0x0010 0x1c00,
    CSI2_CPHY_SETTING 3100 0x00c1 0x0800 0x0002 0x0004 0x0010 0x1c00,
    CSI2_CPHY_SETTING 3200 0x00c7 0x0800 0x0001 0x0004 0x0010 0x1c00,
    CSI2_CPHY_SETTING 3300 0x00ce 0x0800 0x0001 0x0004 0x0010 0x1c00,
    CSI2_CPHY_SETTING 3400 0x00d4 0x0800 0x0001 0x0004 0x0010 0x1c00,
    CSI2_CPHY_SETTING 3500 0x00da 0x0800 0x0001 0x0004 0x0010 0x1c00,
    CSI2_CPHY_SETTING 0 0 0 0 0 0 0]"

subsection \<open>Registers of the lookups and of the test interface\<close>

abbreviation PHTW_REG :: nat where "PHTW_REG \<equiv> 0x50"
abbreviation PHTW_DWEN :: u32 where "PHTW_DWEN \<equiv> push_bit 24 1"
abbreviation PHTW_CWEN :: u32 where "PHTW_CWEN \<equiv> push_bit 8 1"
abbreviation PHYPLL_REG :: nat where "PHYPLL_REG \<equiv> 0x68"
abbreviation V4M_PHYPLL :: nat where "V4M_PHYPLL \<equiv> 0x02050"

definition PHTW_TESTDIN_DATA :: "u16 \<Rightarrow> u32" where
  "PHTW_TESTDIN_DATA n = push_bit 16 (ucast (n AND 0xff))"

definition PHTW_TESTDIN_CODE :: "u16 \<Rightarrow> u32" where
  "PHTW_TESTDIN_CODE n = ucast (n AND 0xff)"

definition PHYPLL_HSFREQRANGE :: "u16 \<Rightarrow> u32" where
  "PHYPLL_HSFREQRANGE n = push_bit 16 (ucast n)"

subsection \<open>Speed lookups\<close>

text \<open>
  The loop \<^verbatim>\<open>for (p = table; p->mbps != 0; p++) { if (p->mbps >= mbps) break; prev = p; }\<close>
  stands, letter for letter, in \<^verbatim>\<open>rcsi2_set_phypll\<close>, \<^verbatim>\<open>rcsi2_get_osc_freq\<close> and
  \<^verbatim>\<open>rcsi2_phtw_write_mbps\<close>. It returns the two pointers it leaves behind: the previous
  entry (\<open>None\<close> for NULL) and the entry it stopped at, which is the sentinel when no
  entry is large enough. The table entry is 16 bits wide and is compared with the
  \<^verbatim>\<open>unsigned int\<close> target as an unsigned 32-bit number. Every table of the file ends
  with the sentinel; a list without one is read as if the sentinel followed it.
\<close>

fun mbps_reg_scan ::
  "u32 \<Rightarrow> rcsi2_mbps_reg option \<Rightarrow> rcsi2_mbps_reg list \<Rightarrow> rcsi2_mbps_reg option \<times> rcsi2_mbps_reg" where
  "mbps_reg_scan mbps' prev [] = (prev, MR 0 0)"
| "mbps_reg_scan mbps' prev (e # es) =
     (if mbps e = 0 then (prev, e)
      else if mbps' \<le> ucast (mbps e) then (prev, e)
      else mbps_reg_scan mbps' (Some e) es)"

text \<open>\<^verbatim>\<open>table->mbps\<close>, the threshold of the first entry.\<close>

definition first_mbps :: "rcsi2_mbps_reg list \<Rightarrow> u16" where
  "first_mbps tbl = (case tbl of [] \<Rightarrow> 0 | e # _ \<Rightarrow> mbps e)"

text \<open>
  \<^verbatim>\<open>rcsi2_set_phypll\<close> and \<^verbatim>\<open>rcsi2_get_osc_freq\<close> read their table through
  \<^verbatim>\<open>priv->info\<close>; both callers test the pointer first, so the model hands the table
  over as an argument. The differences \<^verbatim>\<open>mbps - prev->mbps\<close> and
  \<^verbatim>\<open>p->mbps - mbps\<close> are unsigned 32-bit differences.
\<close>

definition rcsi2_set_phypll ::
  "rcar_csi2 \<Rightarrow> rcsi2_mbps_reg list \<Rightarrow> u32 \<Rightarrow> trace \<Rightarrow> int \<times> trace" where
  "rcsi2_set_phypll priv hsfreqrange' mbps' t =
     (let t = (if mbps' < ucast (first_mbps hsfreqrange')
               then dev_warn ''%u Mbps less than min PHY speed %u Mbps'' t else t)
      in case mbps_reg_scan mbps' None hsfreqrange' of (hsfreq_prev, hsfreq) \<Rightarrow>
        if mbps hsfreq = 0
        then (- ERANGE, dev_err ''Unsupported PHY speed (%u Mbps)'' t)
        else
          let hsfreq =
            (case hsfreq_prev of
               None \<Rightarrow> hsfreq
             | Some prev \<Rightarrow>
                 if mbps' - ucast (mbps prev) \<le> ucast (mbps hsfreq) - mbps' then prev else hsfreq)
          in if RCAR_VIN_R8A779H0_FEATURE \<in> features (info priv)
             then (0, rcsi2_write priv V4M_PHYPLL (PHYPLL_HSFREQRANGE (reg hsfreq)) t)
             else (0, rcsi2_write priv PHYPLL_REG (PHYPLL_HSFREQRANGE (reg hsfreq)) t))"

text \<open>The function returns \<^verbatim>\<open>u16\<close>: its \<^verbatim>\<open>return -ERANGE\<close> hands back the low 16 bits.\<close>

definition rcsi2_get_osc_freq ::
  "rcar_csi2 \<Rightarrow> rcsi2_mbps_reg list \<Rightarrow> u32 \<Rightarrow> trace \<Rightarrow> u16 \<times> trace" where
  "rcsi2_get_osc_freq priv osc_freq_target' mbps' t =
     (let t = (if mbps' < ucast (first_mbps osc_freq_target')
               then dev_warn ''%u Mbps less than min PHY speed %u Mbps'' t else t)
      in case mbps_reg_scan mbps' None osc_freq_target' of (osc_freq_prev, osc_freq) \<Rightarrow>
        if mbps osc_freq = 0
        then (word_of_int (- ERANGE), dev_err ''Unsupported PHY speed (%u Mbps)'' t)
        else
          let osc_freq =
            (case osc_freq_prev of
               None \<Rightarrow> osc_freq
             | Some prev \<Rightarrow>
                 if mbps' - ucast (mbps prev) \<le> ucast (mbps osc_freq) - mbps' then prev else osc_freq)
          in (reg osc_freq, t))"

subsection \<open>The indirect test-interface writes\<close>

text \<open>The polling loop of \<^verbatim>\<open>rcsi2_phtw_write\<close>; the first argument counts the
  iterations that are left (21 at the start). \<open>True\<close>: both enable bits were seen
  cleared.\<close>

fun rcsi2_phtw_poll :: "nat \<Rightarrow> rcar_csi2 \<Rightarrow> trace \<Rightarrow> bool \<times> trace" where
  "rcsi2_phtw_poll 0 priv t = (False, t)"
| "rcsi2_phtw_poll (Suc n) priv t =
     (case rcsi2_read priv PHTW_REG t of (v, t) \<Rightarrow>
        if v AND (PHTW_DWEN OR PHTW_CWEN) = 0 then (True, t)
        else rcsi2_phtw_poll n priv (usleep_range 1000 2000 t))"

definition rcsi2_phtw_write :: "rcar_csi2 \<Rightarrow> u16 \<Rightarrow> u16 \<Rightarrow> trace \<Rightarrow> int \<times> trace" where
  "rcsi2_phtw_write priv data' code' t =
     (let t = rcsi2_write priv PHTW_REG
                (PHTW_DWEN OR PHTW_TESTDIN_DATA data' OR PHTW_CWEN OR PHTW_TESTDIN_CODE code') t
      in if RCAR_VIN_R8A78000_FEATURE \<in> features (info priv) then (0, t)
         else case rcsi2_phtw_poll 21 priv t of (ok, t) \<Rightarrow>
           if ok then (0, t)
           else (- ETIMEDOUT, dev_err ''Timeout waiting for PHTW_DWEN and/or PHTW_CWEN'' t))"

text \<open>The array ends at the first entry with \<^verbatim>\<open>data\<close> and \<^verbatim>\<open>code\<close> both zero; the
  end of the list is the end of the array.\<close>

fun rcsi2_phtw_write_array :: "rcar_csi2 \<Rightarrow> phtw_value list \<Rightarrow> trace \<Rightarrow> int \<times> trace" where
  "rcsi2_phtw_write_array priv [] t = (0, t)"
| "rcsi2_phtw_write_array priv (v # vs) t =
     (if data v \<noteq> 0 \<or> code v \<noteq> 0
      then case rcsi2_phtw_write priv (data v) (code v) t of (ret, t) \<Rightarrow>
             if ret \<noteq> 0 then (ret, t) else rcsi2_phtw_write_array priv vs t
      else (0, t))"

definition rcsi2_phtw_write_mbps ::
  "rcar_csi2 \<Rightarrow> u32 \<Rightarrow> rcsi2_mbps_reg list \<Rightarrow> u16 \<Rightarrow> trace \<Rightarrow> int \<times> trace" where
  "rcsi2_phtw_write_mbps priv mbps' values code' t =
     (case mbps_reg_scan mbps' None values of (prev_value, val) \<Rightarrow>
        let val =
          (case prev_value of
             None \<Rightarrow> val
           | Some prev \<Rightarrow>
               if mbps' - ucast (mbps prev) \<le> ucast (mbps val) - mbps' then prev else val)
        in if mbps val = 0
           then (- ERANGE, dev_err ''Unsupported PHY speed (%u Mbps)'' t)
           else rcsi2_phtw_write priv (reg val) code' t)"

subsection \<open>Register offsets and bits\<close>

text \<open>\<^verbatim>\<open>GENMASK(h, l)\<close>: the bits \<open>l\<close> to \<open>h\<close>.\<close>

definition GENMASK :: "nat \<Rightarrow> nat \<Rightarrow> 'a::len word" where
  "GENMASK h l = push_bit l (mask (h + 1 - l))"

abbreviation TREF_REG :: nat where "TREF_REG \<equiv> 0x00"
abbreviation TREF_TREF :: u32 where "TREF_TREF \<equiv> push_bit 0 1"
abbreviation PHYCNT_REG :: nat where "PHYCNT_REG \<equiv> 0x08"
abbreviation PHYCNT_SHUTDOWNZ :: u32 where "PHYCNT_SHUTDOWNZ \<equiv> push_bit 17 1"
abbreviation PHYCNT_RSTZ :: u32 where "PHYCNT_RSTZ \<equiv> push_bit 16 1"
abbreviation PHYCNT_ENABLECLK :: u32 where "PHYCNT_ENABLECLK \<equiv> push_bit 4 1"
abbreviation VCDT_REG :: nat where "VCDT_REG \<equiv> 0x10"
abbreviation VCDT2_REG :: nat where "VCDT2_REG \<equiv> 0x14"
abbreviation VCDT_VCDTN_EN :: u32 where "VCDT_VCDTN_EN \<equiv> push_bit 15 1"
abbreviation VCDT_SEL_DTN_ON :: u32 where "VCDT_SEL_DTN_ON \<equiv> push_bit 6 1"
abbreviation FLD_REG :: nat where "FLD_REG \<equiv> 0x1c"
abbreviation FLD_FLD_EN4 :: u32 where "FLD_FLD_EN4 \<equiv> push_bit 3 1"
abbreviation FLD_FLD_EN3 :: u32 where "FLD_FLD_EN3 \<equiv> push_bit 2 1"
abbreviation FLD_FLD_EN2 :: u32 where "FLD_FLD_EN2 \<equiv> push_bit 1 1"
abbreviation FLD_FLD_EN :: u32 where "FLD_FLD_EN \<equiv> push_bit 0 1"
abbreviation INTEN_REG :: nat where "INTEN_REG \<equiv> 0x30"
abbreviation INTEN_INT_AFIFO_OF :: u32 where "INTEN_INT_AFIFO_OF \<equiv> push_bit 27 1"
abbreviation INTEN_INT_ERRSOTHS :: u32 where "INTEN_INT_ERRSOTHS \<equiv> push_bit 4 1"
abbreviation INTEN_INT_ERRSOTSYNCHS :: u32 where "INTEN_INT_ERRSOTSYNCHS \<equiv> push_bit 3 1"
abbreviation INTSTATE_REG :: nat where "INTSTATE_REG \<equiv> 0x38"
abbreviation INTSTATE_INT_ULPS_START :: u32 where "INTSTATE_INT_ULPS_START \<equiv> push_bit 7 1"
abbreviation INTSTATE_INT_ULPS_END :: u32 where "INTSTATE_INT_ULPS_END \<equiv> push_bit 6 1"
abbreviation INTERRSTATE_REG :: nat where "INTERRSTATE_REG \<equiv> 0x3c"
abbreviation LINKCNT_REG :: nat where "LINKCNT_REG \<equiv> 0x48"
abbreviation LINKCNT_MONITOR_EN :: u32 where "LINKCNT_MONITOR_EN \<equiv> push_bit 31 1"
abbreviation LINKCNT_REG_MONI_PACT_EN :: u32 where "LINKCNT_REG_MONI_PACT_EN \<equiv> push_bit 25 1"
abbreviation LINKCNT_ICLK_NONSTOP :: u32 where "LINKCNT_ICLK_NONSTOP \<equiv> push_bit 24 1"
abbreviation LSWAP_REG :: nat where "LSWAP_REG \<equiv> 0x4c"
abbreviation N_LANES :: nat where "N_LANES \<equiv> 0x0004"
abbreviation CSI2_RESETN :: nat where "CSI2_RESETN \<equiv> 0x0008"
abbreviation PHY_SHUTDOWNZ :: nat where "PHY_SHUTDOWNZ \<equiv> 0x0040"
abbreviation PHY_MODE :: nat where "PHY_MODE \<equiv> 0x001c"
abbreviation DPHY_RSTZ :: nat where "DPHY_RSTZ \<equiv> 0x0044"
abbreviation FLDC :: nat where "FLDC \<equiv> 0x0804"
abbreviation FLDD :: nat where "FLDD \<equiv> 0x0808"
abbreviation IDIC :: nat where "IDIC \<equiv> 0x0810"
abbreviation OVR1 :: nat where "OVR1 \<equiv> 0x0848"
abbreviation OVR1_forcerxmode_2 :: u32 where "OVR1_forcerxmode_2 \<equiv> push_bit 11 1"
abbreviation OVR1_forcerxmode_1 :: u32 where "OVR1_forcerxmode_1 \<equiv> push_bit 10 1"
abbreviation OVR1_forcerxmode_0 :: u32 where "OVR1_forcerxmode_0 \<equiv> push_bit 9 1"
abbreviation OVR1_forcerxmode_dck :: u32 where "OVR1_forcerxmode_dck \<equiv> push_bit 8 1"
abbreviation PHY_EN :: nat where "PHY_EN \<equiv> 0x2000"
abbreviation PHY_ENABLE_2 :: u32 where "PHY_ENABLE_2 \<equiv> push_bit 6 1"
abbreviation PHY_ENABLE_1 :: u32 where "PHY_ENABLE_1 \<equiv> push_bit 5 1"
abbreviation PHY_ENABLE_0 :: u32 where "PHY_ENABLE_0 \<equiv> push_bit 4 1"
abbreviation PHY_ENABLE_DCK :: u32 where "PHY_ENABLE_DCK \<equiv> push_bit 0 1"
abbreviation FRXM :: nat where "FRXM \<equiv> 0x2004"
abbreviation FRXM_FORCERXMODE_DCK :: u32 where "FRXM_FORCERXMODE_DCK \<equiv> push_bit 4 1"
abbreviation FRXM_FORCERXMODE_2 :: u32 where "FRXM_FORCERXMODE_2 \<equiv> push_bit 2 1"
abbreviation FRXM_FORCERXMODE_1 :: u32 where "FRXM_FORCERXMODE_1 \<equiv> push_bit 1 1"
abbreviation FRXM_FORCERXMODE_0 :: u32 where "FRXM_FORCERXMODE_0 \<equiv> push_bit 0 1"
abbreviation V4M_CSI0CLKFCPR :: nat where "V4M_CSI0CLKFCPR \<equiv> 0x02054"
abbreviation V4M_PHTR :: nat where "V4M_PHTR \<equiv> 0x02064"
abbreviation ST_PHYST :: nat where "ST_PHYST \<equiv> 0x2814"
abbreviation ST_PHY_READY :: u32 where "ST_PHY_READY \<equiv> push_bit 31 1"
abbreviation ST_STOPSTATE_DCK :: u32 where "ST_STOPSTATE_DCK \<equiv> push_bit 7 1"
abbreviation ST_STOPSTATE_2 :: u32 where "ST_STOPSTATE_2 \<equiv> push_bit 2 1"
abbreviation ST_STOPSTATE_1 :: u32 where "ST_STOPSTATE_1 \<equiv> push_bit 1 1"
abbreviation ST_STOPSTATE_0 :: u32 where "ST_STOPSTATE_0 \<equiv> push_bit 0 1"
definition PPI_STARTUP_RW_COMMON_DPHY :: "nat \<Rightarrow> nat" where "PPI_STARTUP_RW_COMMON_DPHY n = 0x21800 + n * 2"
abbreviation PPI_STARTUP_RW_COMMON_STARTUP_1_1 :: nat where "PPI_STARTUP_RW_COMMON_STARTUP_1_1 \<equiv> 0x21822"
abbreviation PPI_CALIBCTRL_RW_COMMON_BG_0 :: nat where "PPI_CALIBCTRL_RW_COMMON_BG_0 \<equiv> 0x2184C"
abbreviation PPI_RW_LPDCOCAL_TIMEBASE :: nat where "PPI_RW_LPDCOCAL_TIMEBASE \<equiv> 0x21C02"
abbreviation PPI_RW_LPDCOCAL_NREF :: nat where "PPI_RW_LPDCOCAL_NREF \<equiv> 0x21C04"
abbreviation PPI_RW_LPDCOCAL_NREF_RANGE :: nat where "PPI_RW_LPDCOCAL_NREF_RANGE \<equiv> 0x21C06"
abbreviation PPI_RW_LPDCOCAL_TWAIT_CONFIG :: nat where "PPI_RW_LPDCOCAL_TWAIT_CONFIG \<equiv> 0x21C0A"
abbreviation PPI_RW_LPDCOCAL_VT_CONFIG :: nat where "PPI_RW_LPDCOCAL_VT_CONFIG \<equiv> 0x21C0C"
abbreviation PPI_RW_LPDCOCAL_COARSE_CFG :: nat where "PPI_RW_LPDCOCAL_COARSE_CFG \<equiv> 0x21C10"
abbreviation PPI_RW_COMMON_CFG :: nat where "PPI_RW_COMMON_CFG \<equiv> 0x21C6C"
abbreviation PPI_RW_TERMCAL_CFG_0 :: nat where "PPI_RW_TERMCAL_CFG_0 \<equiv> 0x21C80"
abbreviation PPI_RW_OFFSETCAL_CFG_0 :: nat where "PPI_RW_OFFSETCAL_CFG_0 \<equiv> 0x21CA0"
definition CORE_DIG_IOCTRL_RW_AFE_LANE0_CTRL_2 :: "nat \<Rightarrow> nat" where "CORE_DIG_IOCTRL_RW_AFE_LANE0_CTRL_2 n = 0x22040 + n * 2"
definition CORE_DIG_IOCTRL_RW_AFE_LANE1_CTRL_2 :: "nat \<Rightarrow> nat" where "CORE_DIG_IOCTRL_RW_AFE_LANE1_CTRL_2 n = 0x22440 + n * 2"
definition CORE_DIG_IOCTRL_RW_AFE_LANE2_CTRL_2 :: "nat \<Rightarrow> nat" where "CORE_DIG_IOCTRL_RW_AFE_LANE2_CTRL_2 n = 0x22840 + n * 2"
definition CORE_DIG_IOCTRL_RW_AFE_LANE3_CTRL_2 :: "nat \<Rightarrow> nat" where "CORE_DIG_IOCTRL_RW_AFE_LANE3_CTRL_2 n = 0x22C40 + n * 2"
definition CORE_DIG_IOCTRL_RW_AFE_LANE4_CTRL_2 :: "nat \<Rightarrow> nat" where "CORE_DIG_IOCTRL_RW_AFE_LANE4_CTRL_2 n = 0x23040 + n * 2"
definition CORE_DIG_IOCTRL_RW_AFE_CB_CTRL_2 :: "nat \<Rightarrow> nat" where "CORE_DIG_IOCTRL_RW_AFE_CB_CTRL_2 n = 0x23840 + n * 2"
definition CORE_DIG_RW_COMMON :: "nat \<Rightarrow> nat" where "CORE_DIG_RW_COMMON n = 0x23880 + n * 2"
definition CORE_DIG_ANACTRL_RW_COMMON_ANACTRL :: "nat \<Rightarrow> nat" where "CORE_DIG_ANACTRL_RW_COMMON_ANACTRL n = 0x239E0 + n * 2"
abbreviation CORE_DIG_CLANE_0_RW_CFG_0 :: nat where "CORE_DIG_CLANE_0_RW_CFG_0 \<equiv> 0x2A000"
abbreviation CORE_DIG_CLANE_1_RW_CFG_0 :: nat where "CORE_DIG_CLANE_1_RW_CFG_0 \<equiv> 0x2A400"
abbreviation CORE_DIG_CLANE_2_RW_CFG_0 :: nat where "CORE_DIG_CLANE_2_RW_CFG_0 \<equiv> 0x2A800"
abbreviation CORE_DIG_CLANE_1_RW_HS_TX_6 :: nat where "CORE_DIG_CLANE_1_RW_HS_TX_6 \<equiv> 0x2A60C"
definition CORE_DIG_RW_TRIO0 :: "nat \<Rightarrow> nat" where "CORE_DIG_RW_TRIO0 n = 0x22100 + n * 2"
definition CORE_DIG_RW_TRIO1 :: "nat \<Rightarrow> nat" where "CORE_DIG_RW_TRIO1 n = 0x22500 + n * 2"
definition CORE_DIG_RW_TRIO2 :: "nat \<Rightarrow> nat" where "CORE_DIG_RW_TRIO2 n = 0x22900 + n * 2"
abbreviation CORE_DIG_CLANE_0_RW_LP_0 :: nat where "CORE_DIG_CLANE_0_RW_LP_0 \<equiv> 0x2A080"
definition CORE_DIG_CLANE_0_RW_HS_RX :: "nat \<Rightarrow> nat" where "CORE_DIG_CLANE_0_RW_HS_RX n = 0x2A100 + n * 2"
abbreviation CORE_DIG_CLANE_1_RW_LP_0 :: nat where "CORE_DIG_CLANE_1_RW_LP_0 \<equiv> 0x2A480"
definition CORE_DIG_CLANE_1_RW_HS_RX :: "nat \<Rightarrow> nat" where "CORE_DIG_CLANE_1_RW_HS_RX n = 0x2A500 + n * 2"
abbreviation CORE_DIG_CLANE_2_RW_LP_0 :: nat where "CORE_DIG_CLANE_2_RW_LP_0 \<equiv> 0x2A880"
definition CORE_DIG_CLANE_2_RW_HS_RX :: "nat \<Rightarrow> nat" where "CORE_DIG_CLANE_2_RW_HS_RX n = 0x2A900 + n * 2"
abbreviation PWR_UP :: nat where "PWR_UP \<equiv> 0xc"
abbreviation PWR_UP_BIT :: u32 where "PWR_UP_BIT \<equiv> push_bit 0 1"
abbreviation PHY_MODE_CFG :: nat where "PHY_MODE_CFG \<equiv> 0x100"
abbreviation PPI_WIDTH :: u32 where "PPI_WIDTH \<equiv> GENMASK 17 16"
abbreviation PHY_MODE_BIT :: u32 where "PHY_MODE_BIT \<equiv> push_bit 0 1"
abbreviation PHY_DESKEW_CFG :: nat where "PHY_DESKEW_CFG \<equiv> 0x104"
abbreviation DESKEW_SYS_CYCLES :: u32 where "DESKEW_SYS_CYCLES \<equiv> GENMASK 7 0"
abbreviation SDI_CFG :: nat where "SDI_CFG \<equiv> 0x400"
abbreviation SDI_ENCODE_MODE :: u32 where "SDI_ENCODE_MODE \<equiv> push_bit 1 1"
abbreviation SDI_ENABLE :: u32 where "SDI_ENABLE \<equiv> push_bit 0 1"
abbreviation SDI_FILTER_CFG :: nat where "SDI_FILTER_CFG \<equiv> 0x404"
abbreviation SDI_EXCLUDE_SP :: u32 where "SDI_EXCLUDE_SP \<equiv> push_bit 18 1"
abbreviation SDI_SELECT_DT_EN :: u32 where "SDI_SELECT_DT_EN \<equiv> push_bit 17 1"
abbreviation SDI_SELECT_VC_EN :: u32 where "SDI_SELECT_VC_EN \<equiv> push_bit 16 1"
abbreviation SDI_SELECT_DT :: u32 where "SDI_SELECT_DT \<equiv> GENMASK 13 8"
abbreviation SDI_SELECT_VC :: u32 where "SDI_SELECT_VC \<equiv> GENMASK 4 0"
abbreviation INT_UNMASK_CSI2 :: nat where "INT_UNMASK_CSI2 \<equiv> 0x59c"
abbreviation UNMASK_MAX_N_DATA_IDS_ERR_IRQ :: u32 where "UNMASK_MAX_N_DATA_IDS_ERR_IRQ \<equiv> push_bit 5 1"
abbreviation UNMASK_INVALID_DT_ERR_IRQ :: u32 where "UNMASK_INVALID_DT_ERR_IRQ \<equiv> push_bit 4 1"
abbreviation UNMASK_CRC_ERR_IRQ :: u32 where "UNMASK_CRC_ERR_IRQ \<equiv> push_bit 3 1"
abbreviation UNMASK_INVALID_RX_LENGTH_ERR_IRQ :: u32 where "UNMASK_INVALID_RX_LENGTH_ERR_IRQ \<equiv> push_bit 2 1"
abbreviation UNMASK_HDR_NON_FATAL_ERR_IRQ :: u32 where "UNMASK_HDR_NON_FATAL_ERR_IRQ \<equiv> push_bit 1 1"
abbreviation UNMASK_HDR_FATAL_ERR_IRQ :: u32 where "UNMASK_HDR_FATAL_ERR_IRQ \<equiv> push_bit 0 1"
abbreviation INT_UNMASK_FRAME :: nat where "INT_UNMASK_FRAME \<equiv> 0x5a0"
abbreviation UNMASK_FRAME_SEQUENCE_ERR_IRQ :: u32 where "UNMASK_FRAME_SEQUENCE_ERR_IRQ \<equiv> push_bit 1 1"
abbreviation UNMASK_FRAME_BOUNDARY_ERR_IRQ :: u32 where "UNMASK_FRAME_BOUNDARY_ERR_IRQ \<equiv> push_bit 0 1"
abbreviation INT_UNMASK_LINE :: nat where "INT_UNMASK_LINE \<equiv> 0x5a4"
abbreviation UNMASK_LINE_SEQUENCE_ERR_IRQ :: u32 where "UNMASK_LINE_SEQUENCE_ERR_IRQ \<equiv> push_bit 1 1"
abbreviation UNMASK_LINE_BOUNDARY_ERR_IRQ :: u32 where "UNMASK_LINE_BOUNDARY_ERR_IRQ \<equiv> push_bit 0 1"
abbreviation PHYFRX_REG :: nat where "PHYFRX_REG \<equiv> 0x64"
abbreviation PHYFRX_FORCERX_MODE_3 :: u32 where "PHYFRX_FORCERX_MODE_3 \<equiv> push_bit 3 1"
abbreviation PHYFRX_FORCERX_MODE_2 :: u32 where "PHYFRX_FORCERX_MODE_2 \<equiv> push_bit 2 1"
abbreviation PHYFRX_FORCERX_MODE_1 :: u32 where "PHYFRX_FORCERX_MODE_1 \<equiv> push_bit 1 1"
abbreviation PHYFRX_FORCERX_MODE_0 :: u32 where "PHYFRX_FORCERX_MODE_0 \<equiv> push_bit 0 1"
abbreviation PHTC_REG :: nat where "PHTC_REG \<equiv> 0x58"
abbreviation PHTC_TESTCLR :: u32 where "PHTC_TESTCLR \<equiv> push_bit 0 1"
abbreviation PHCLM_REG :: nat where "PHCLM_REG \<equiv> 0x78"
abbreviation PHCLM_STOPSTATECKL :: u32 where "PHCLM_STOPSTATECKL \<equiv> push_bit 0 1"
abbreviation PHDLM_REG :: nat where "PHDLM_REG \<equiv> 0x7c"
abbreviation CSI0CLKFCPR_REG :: nat where "CSI0CLKFCPR_REG \<equiv> 0x260"

definition VCDT_SEL_VC :: "u32 \<Rightarrow> u32" where "VCDT_SEL_VC n = push_bit 8 (n AND 0x3)"
definition VCDT_SEL_DT :: "u32 \<Rightarrow> u32" where "VCDT_SEL_DT n = push_bit 0 (n AND 0x3f)"
definition FLD_FLD_NUM :: "u32 \<Rightarrow> u32" where "FLD_FLD_NUM n = push_bit 16 (n AND 0xff)"
definition FLD_DET_SEL :: "u32 \<Rightarrow> u32" where "FLD_DET_SEL n = push_bit 4 (n AND 0x3)"
definition LSWAP_L3SEL :: "u32 \<Rightarrow> u32" where "LSWAP_L3SEL n = push_bit 6 (n AND 0x3)"
definition LSWAP_L2SEL :: "u32 \<Rightarrow> u32" where "LSWAP_L2SEL n = push_bit 4 (n AND 0x3)"
definition LSWAP_L1SEL :: "u32 \<Rightarrow> u32" where "LSWAP_L1SEL n = push_bit 2 (n AND 0x3)"
definition LSWAP_L0SEL :: "u32 \<Rightarrow> u32" where "LSWAP_L0SEL n = push_bit 0 (n AND 0x3)"
definition CSI0CLKFREQRANGE :: "u32 \<Rightarrow> u32" where "CSI0CLKFREQRANGE n = push_bit 16 (n AND 0x3f)"
definition V4M_CSI0CLKFREQRANGE :: "u32 \<Rightarrow> u32" where
  "V4M_CSI0CLKFREQRANGE n = push_bit 16 (n AND 0xff)"
definition V4M_PHTW_DIN_DATA_PP :: "u16 \<Rightarrow> u16" where "V4M_PHTW_DIN_DATA_PP n = n AND 0xff"
definition V4M_PHTW_DIN_DATA_D :: "u16 \<Rightarrow> u16" where
  "V4M_PHTW_DIN_DATA_D n = drop_bit 16 (n AND 0xf00)"

text \<open>Constants of the V4L2 headers: bus flags, field orders, media bus codes.\<close>

abbreviation V4L2_MBUS_CSI2_1_LANE :: u32 where "V4L2_MBUS_CSI2_1_LANE \<equiv> push_bit 0 1"
abbreviation V4L2_MBUS_CSI2_2_LANE :: u32 where "V4L2_MBUS_CSI2_2_LANE \<equiv> push_bit 1 1"
abbreviation V4L2_MBUS_CSI2_3_LANE :: u32 where "V4L2_MBUS_CSI2_3_LANE \<equiv> push_bit 2 1"
abbreviation V4L2_MBUS_CSI2_4_LANE :: u32 where "V4L2_MBUS_CSI2_4_LANE \<equiv> push_bit 3 1"
abbreviation UINT_MAX :: u32 where "UINT_MAX \<equiv> 0xffffffff"
abbreviation V4L2_FIELD_NONE :: u32 where "V4L2_FIELD_NONE \<equiv> 1"
abbreviation V4L2_FIELD_ALTERNATE :: u32 where "V4L2_FIELD_ALTERNATE \<equiv> 7"
abbreviation MEDIA_BUS_FMT_RGB888_1X24 :: u32 where "MEDIA_BUS_FMT_RGB888_1X24 \<equiv> 0x100a"
abbreviation MEDIA_BUS_FMT_UYVY8_1X16 :: u32 where "MEDIA_BUS_FMT_UYVY8_1X16 \<equiv> 0x200f"
abbreviation MEDIA_BUS_FMT_YUYV8_1X16 :: u32 where "MEDIA_BUS_FMT_YUYV8_1X16 \<equiv> 0x2011"
abbreviation MEDIA_BUS_FMT_UYVY8_2X8 :: u32 where "MEDIA_BUS_FMT_UYVY8_2X8 \<equiv> 0x2006"
abbreviation MEDIA_BUS_FMT_YUYV10_2X10 :: u32 where "MEDIA_BUS_FMT_YUYV10_2X10 \<equiv> 0x200b"
abbreviation MEDIA_BUS_FMT_Y10_1X10 :: u32 where "MEDIA_BUS_FMT_Y10_1X10 \<equiv> 0x200a"
abbreviation MEDIA_BUS_FMT_SBGGR8_1X8 :: u32 where "MEDIA_BUS_FMT_SBGGR8_1X8 \<equiv> 0x3001"
abbreviation MEDIA_BUS_FMT_SGBRG8_1X8 :: u32 where "MEDIA_BUS_FMT_SGBRG8_1X8 \<equiv> 0x3013"
abbreviation MEDIA_BUS_FMT_SGRBG8_1X8 :: u32 where "MEDIA_BUS_FMT_SGRBG8_1X8 \<equiv> 0x3002"
abbreviation MEDIA_BUS_FMT_SRGGB8_1X8 :: u32 where "MEDIA_BUS_FMT_SRGGB8_1X8 \<equiv> 0x3014"
abbreviation MEDIA_BUS_FMT_Y8_1X8 :: u32 where "MEDIA_BUS_FMT_Y8_1X8 \<equiv> 0x2001"

subsection \<open>Static tables of formats and C-PHY registers\<close>

definition rcar_csi2_formats :: "rcar_csi2_format list" where
  "rcar_csi2_formats = [
    \<lparr>format_code = MEDIA_BUS_FMT_RGB888_1X24, format_datatype = 0x24, bpp = 24\<rparr>,
    \<lparr>format_code = MEDIA_BUS_FMT_UYVY8_1X16, format_datatype = 0x1e, bpp = 16\<rparr>,
    \<lparr>format_code = MEDIA_BUS_FMT_YUYV8_1X16, format_datatype = 0x1e, bpp = 16\<rparr>,
    \<lparr>format_code = MEDIA_BUS_FMT_UYVY8_2X8, format_datatype = 0x1e, bpp = 16\<rparr>,
    \<lparr>format_code = MEDIA_BUS_FMT_YUYV10_2X10, format_datatype = 0x1e, bpp = 20\<rparr>,
    \<lparr>format_code = MEDIA_BUS_FMT_Y10_1X10, format_datatype = 0x2b, bpp = 10\<rparr>,
    \<lparr>format_code = MEDIA_BUS_FMT_SBGGR8_1X8, format_datatype = 0x2a, bpp = 8\<rparr>,
    \<lparr>format_code = MEDIA_BUS_FMT_SGBRG8_1X8, format_datatype = 0x2a, bpp = 8\<rparr>,
    \<lparr>format_code = MEDIA_BUS_FMT_SGRBG8_1X8, format_datatype = 0x2a, bpp = 8\<rparr>,
    \<lparr>format_code = MEDIA_BUS_FMT_SRGGB8_1X8, format_datatype = 0x2a, bpp = 8\<rparr>,
    \<lparr>format_code = MEDIA_BUS_FMT_Y8_1X8, format_datatype = 0x2a, bpp = 8\<rparr>]"

abbreviation ABC :: u32 where "ABC \<equiv> 0x0"
abbreviation CBA :: u32 where "CBA \<equiv> 0x1"
abbreviation ACB :: u32 where "ACB \<equiv> 0x2"
abbreviation CAB :: u32 where "CAB \<equiv> 0x3"
abbreviation BAC :: u32 where "BAC \<equiv> 0x4"
abbreviation BCA :: u32 where "BCA \<equiv> 0x5"

definition rcar_csi2_pin_swaps :: "rcar_csi2_pin_swap list" where
  "rcar_csi2_pin_swaps = [
    \<lparr>swap_code = 0x0, rw_cfg0_b2_0 = 0x0, rw_cfg0_b3 = 0x0, afe_clane_29_b8 = 0x0\<rparr>,
    \<lparr>swap_code = 0x1, rw_cfg0_b2_0 = 0x1, rw_cfg0_b3 = 0x1, afe_clane_29_b8 = 0x1\<rparr>,
    \<lparr>swap_code = 0x2, rw_cfg0_b2_0 = 0x2, rw_cfg0_b3 = 0x1, afe_clane_29_b8 = 0x1\<rparr>,
    \<lparr>swap_code = 0x3, rw_cfg0_b2_0 = 0x3, rw_cfg0_b3 = 0x0, afe_clane_29_b8 = 0x0\<rparr>,
    \<lparr>swap_code = 0x4, rw_cfg0_b2_0 = 0x4, rw_cfg0_b3 = 0x1, afe_clane_29_b8 = 0x1\<rparr>,
    \<lparr>swap_code = 0x5, rw_cfg0_b2_0 = 0x5, rw_cfg0_b3 = 0x0, afe_clane_29_b8 = 0x0\<rparr>]"

definition cphy_specific_reg :: "rcar_csi2_cphy_specific list" where
  "cphy_specific_reg = [
    \<lparr>trio = 0,
      hs_receive_reg = CORE_DIG_IOCTRL_RW_AFE_LANE0_CTRL_2 9,
      pin_swap_reg = CORE_DIG_IOCTRL_RW_AFE_LANE0_CTRL_2 9,
      ctrl27_reg = CORE_DIG_IOCTRL_RW_AFE_LANE0_CTRL_2 7,
      rwconf_reg = CORE_DIG_CLANE_0_RW_CFG_0\<rparr>,
    \<lparr>trio = 1,
      hs_receive_reg = CORE_DIG_IOCTRL_RW_AFE_LANE1_CTRL_2 9,
      pin_swap_reg = CORE_DIG_IOCTRL_RW_AFE_LANE2_CTRL_2 9,
      ctrl27_reg = CORE_DIG_IOCTRL_RW_AFE_LANE1_CTRL_2 7,
      rwconf_reg = CORE_DIG_CLANE_1_RW_CFG_0\<rparr>,
    \<lparr>trio = 2,
      hs_receive_reg = CORE_DIG_IOCTRL_RW_AFE_LANE2_CTRL_2 9,
      pin_swap_reg = CORE_DIG_IOCTRL_RW_AFE_LANE3_CTRL_2 9,
      ctrl27_reg = CORE_DIG_IOCTRL_RW_AFE_LANE2_CTRL_2 7,
      rwconf_reg = CORE_DIG_CLANE_2_RW_CFG_0\<rparr>]"

definition rcsi2_code_to_fmt :: "u32 \<Rightarrow> rcar_csi2_format option" where
  "rcsi2_code_to_fmt code' = find (\<lambda>f. format_code f = code') rcar_csi2_formats"

subsection \<open>Calls into the rest of the kernel\<close>

definition pm_runtime_get_sync :: "trace \<Rightarrow> trace" where
  "pm_runtime_get_sync t = t @ [Pm_runtime_get_sync]"

definition pm_runtime_put :: "trace \<Rightarrow> trace" where
  "pm_runtime_put t = t @ [Pm_runtime_put]"

definition reset_control_assert :: "trace \<Rightarrow> trace" where
  "reset_control_assert t = t @ [Reset_control_assert]"

definition reset_control_deassert :: "trace \<Rightarrow> trace" where
  "reset_control_deassert t = t @ [Reset_control_deassert]"

definition mutex_lock :: "trace \<Rightarrow> trace" where
  "mutex_lock t = t @ [Mutex_lock]"

definition mutex_unlock :: "trace \<Rightarrow> trace" where
  "mutex_unlock t = t @ [Mutex_unlock]"

text \<open>
  \<^verbatim>\<open>v4l2_subdev_call(priv->remote, ...)\<close>: the macro answers \<^verbatim>\<open>-ENODEV\<close> for a NULL
  subdevice without calling anything, and otherwise whatever the operation returns.
\<close>

definition remote_get_mbus_config ::
  "rcar_csi2 \<Rightarrow> trace \<Rightarrow> int \<times> v4l2_mbus_type \<times> u32 \<times> trace" where
  "remote_get_mbus_config priv t =
     (case remote priv of
        None \<Rightarrow> (- ENODEV, V4L2_MBUS_UNKNOWN, 0, t)
      | Some sd \<Rightarrow>
          (case get_mbus_config sd of (ret, ty, flags) \<Rightarrow>
             (ret, ty, flags, t @ [Remote_get_mbus_config])))"

definition remote_s_stream :: "rcar_csi2 \<Rightarrow> int \<Rightarrow> trace \<Rightarrow> int \<times> trace" where
  "remote_s_stream priv enable t =
     (case remote priv of
        None \<Rightarrow> (- ENODEV, t)
      | Some sd \<Rightarrow> (s_stream sd t enable, t @ [Remote_s_stream enable]))"

definition csi2cam_start :: "rcar_csi2 \<Rightarrow> trace \<Rightarrow> int \<times> trace" where
  "csi2cam_start priv t = (cam_start priv t, t @ [Csi2cam_start])"

definition csi2cam_stop :: "rcar_csi2 \<Rightarrow> trace \<Rightarrow> trace" where
  "csi2cam_stop priv t = t @ [Csi2cam_stop]"

text \<open>
  Modelled from the spec: \<^verbatim>\<open>do_div(n, base)\<close>, a macro of the kernel's
  \<^verbatim>\<open>div64.h\<close> that is not part of this file. The spec reads its use in the link-speed
  computation as integer division; here it divides the unsigned 64-bit \<open>n\<close> by the
  32-bit \<open>base\<close>. A zero base has no result.
\<close>

definition do_div :: "u64 \<Rightarrow> u32 \<Rightarrow> u64 option" where
  "do_div n b = (if b = 0 then None else Some (n div ucast b))"

subsection \<open>Standby\<close>

definition rcsi2_enter_standby :: "rcar_csi2 \<Rightarrow> trace \<Rightarrow> trace" where
  "rcsi2_enter_standby priv t =
     (let t = (if RCAR_VIN_R8A779G0_FEATURE \<notin> features (info priv)
               then rcsi2_write priv PHTC_REG PHTC_TESTCLR (rcsi2_write priv PHYCNT_REG 0 t)
               else t);
          t = (if RCAR_VIN_R8A78000_FEATURE \<notin> features (info priv)
               then reset_control_assert t else t);
          t = usleep_range 100 150 t
      in pm_runtime_put t)"

definition rcsi2_exit_standby :: "rcar_csi2 \<Rightarrow> trace \<Rightarrow> trace" where
  "rcsi2_exit_standby priv t =
     (let t = pm_runtime_get_sync t
      in if RCAR_VIN_R8A78000_FEATURE \<notin> features (info priv)
         then reset_control_deassert t else t)"

subsection \<open>Waiting for the lanes (Gen3)\<close>

text \<open>The loop of \<^verbatim>\<open>rcsi2_wait_phy_start\<close>, 21 iterations; the second register is
  read only when the clock lane is in stop state (\<^verbatim>\<open>&&\<close>). Lane counts are at most 4;
  a shift count of 32 or more, which C leaves undefined, does not occur.\<close>

fun rcsi2_wait_phy_start_poll :: "nat \<Rightarrow> rcar_csi2 \<Rightarrow> u32 \<Rightarrow> trace \<Rightarrow> bool \<times> trace" where
  "rcsi2_wait_phy_start_poll 0 priv lanes' t = (False, t)"
| "rcsi2_wait_phy_start_poll (Suc n) priv lanes' t =
     (let lane_mask = push_bit (unat lanes') 1 - 1
      in case rcsi2_read priv PHCLM_REG t of (clm, t) \<Rightarrow>
           if clm AND PHCLM_STOPSTATECKL \<noteq> 0
           then (case rcsi2_read priv PHDLM_REG t of (dlm, t) \<Rightarrow>
                   if dlm AND lane_mask = lane_mask then (True, t)
                   else rcsi2_wait_phy_start_poll n priv lanes' (usleep_range 1000 2000 t))
           else rcsi2_wait_phy_start_poll n priv lanes' (usleep_range 1000 2000 t))"

definition rcsi2_wait_phy_start :: "rcar_csi2 \<Rightarrow> u32 \<Rightarrow> trace \<Rightarrow> int \<times> trace" where
  "rcsi2_wait_phy_start priv lanes' t =
     (if RCAR_VIN_R8A78000_FEATURE \<in> features (info priv) then (0, t)
      else case rcsi2_wait_phy_start_poll 21 priv lanes' t of (ok, t) \<Rightarrow>
        if ok then (0, t)
        else (- ETIMEDOUT, dev_err ''Timeout waiting for LP-11 state'' t))"

subsection \<open>Link speed and active lanes\<close>

text \<open>
  \<^verbatim>\<open>rcsi2_calc_mbps\<close>. The product is formed in 64 bits and wraps; the divisor
  \<^verbatim>\<open>lanes * 1000000\<close> is formed in 32 bits; the 64-bit quotient is returned as
  \<^verbatim>\<open>int\<close>, that is, its low 32 bits read as a signed number. \<open>None\<close>: division by
  zero.
\<close>

definition rcsi2_calc_mbps :: "rcar_csi2 \<Rightarrow> u32 \<Rightarrow> u32 \<Rightarrow> trace \<Rightarrow> (int \<times> trace) option" where
  "rcsi2_calc_mbps priv bpp' lanes' t =
     (let ret = (\<lambda>m t. map_option (\<lambda>q. (sint (ucast q :: u32), t)) (do_div m (lanes' * 1000000)))
      in if RCAR_VIN_R8A78000_FEATURE \<notin> features (info priv)
         then (case remote priv of
                 None \<Rightarrow> Some (- ENODEV, t)
               | Some source \<Rightarrow>
                   (case pixel_rate source of
                      None \<Rightarrow> Some (- EINVAL, dev_err ''no pixel rate control in subdev %s'' t)
                    | Some rate \<Rightarrow> ret (rate * ucast bpp') t))
         else ret 7423000000 t)"

definition rcsi2_get_active_lanes :: "rcar_csi2 \<Rightarrow> trace \<Rightarrow> int \<times> u32 \<times> trace" where
  "rcsi2_get_active_lanes priv t =
     (let lanes' = ucast (lanes priv)
      in if RCAR_VIN_R8A78000_FEATURE \<notin> features (info priv)
         then (case remote_get_mbus_config priv t of (ret, ty, flags, t) \<Rightarrow>
           if ret = - ENOIOCTLCMD then (0, lanes', t)
           else if ret \<noteq> 0
           then (ret, lanes', dev_err ''Failed to get remote mbus configuration'' t)
           else if ty \<noteq> V4L2_MBUS_CSI2_DPHY \<and> ty \<noteq> V4L2_MBUS_CSI2_CPHY
           then (- EINVAL, lanes', dev_err ''Unsupported media bus type %u'' t)
           else
             let num_lanes =
               (if flags AND V4L2_MBUS_CSI2_1_LANE \<noteq> 0 then 1
                else if flags AND V4L2_MBUS_CSI2_2_LANE \<noteq> 0 then 2
                else if flags AND V4L2_MBUS_CSI2_3_LANE \<noteq> 0 then 3
                else if flags AND V4L2_MBUS_CSI2_4_LANE \<noteq> 0 then 4
                else UINT_MAX)
             in if ucast (lanes priv) < num_lanes
                then (- EINVAL, lanes',
                      dev_err ''Unsupported mbus config: too many data lanes %u'' t)
                else (0, num_lanes, t))
         else (0, lanes', t))"

subsection \<open>PHTW initialisation sequences\<close>

definition h3_v3h_m3n_step1 :: "phtw_value list" where
  "h3_v3h_m3n_step1 = [PV 0xcc 0xe2, PV 0x01 0xe3, PV 0x11 0xe4, PV 0x01 0xe5, PV 0x10 0x04, PV 0 0]"

definition h3_v3h_m3n_step2 :: "phtw_value list" where
  "h3_v3h_m3n_step2 = [PV 0x38 0x08, PV 0x01 0x00, PV 0x4b 0xac, PV 0x03 0x00, PV 0x80 0x07, PV 0 0]"

definition rcsi2_init_phtw_h3_v3h_m3n' :: "rcar_csi2 \<Rightarrow> u32 \<Rightarrow> trace \<Rightarrow> int \<times> trace" where
  "rcsi2_init_phtw_h3_v3h_m3n' priv mbps' t =
     (case rcsi2_phtw_write_array priv h3_v3h_m3n_step1 t of (ret, t) \<Rightarrow>
      if ret \<noteq> 0 then (ret, t) else
      case (if mbps' \<noteq> 0 \<and> mbps' \<le> 250
            then (case rcsi2_phtw_write priv 0x39 0x05 t of (ret, t) \<Rightarrow>
                  if ret \<noteq> 0 then (ret, t)
                  else rcsi2_phtw_write_mbps priv mbps' phtw_mbps_h3_v3h_m3n 0xf1 t)
            else (0, t)) of (ret, t) \<Rightarrow>
      if ret \<noteq> 0 then (ret, t) else
      rcsi2_phtw_write_array priv h3_v3h_m3n_step2 t)"

definition rcsi2_init_phtw_h3_v3h_m3n :: "rcar_csi2 \<Rightarrow> u32 \<Rightarrow> trace \<Rightarrow> int \<times> trace" where
  "rcsi2_init_phtw_h3_v3h_m3n priv mbps' t = rcsi2_init_phtw_h3_v3h_m3n' priv mbps' t"

definition rcsi2_init_phtw_h3es2 :: "rcar_csi2 \<Rightarrow> u32 \<Rightarrow> trace \<Rightarrow> int \<times> trace" where
  "rcsi2_init_phtw_h3es2 priv mbps' t = rcsi2_init_phtw_h3_v3h_m3n' priv 0 t"

definition rcsi2_init_phtw_v3m_e3 :: "rcar_csi2 \<Rightarrow> u32 \<Rightarrow> trace \<Rightarrow> int \<times> trace" where
  "rcsi2_init_phtw_v3m_e3 priv mbps' t = rcsi2_phtw_write_mbps priv mbps' phtw_mbps_v3m_e3 0x44 t"

definition v3m_e3_post_step1 :: "phtw_value list" where
  "v3m_e3_post_step1 = [PV 0xee 0x34, PV 0xee 0x44, PV 0xee 0x54, PV 0xee 0x84, PV 0xee 0x94, PV 0 0]"

definition rcsi2_phy_post_init_v3m_e3 :: "rcar_csi2 \<Rightarrow> trace \<Rightarrow> int \<times> trace" where
  "rcsi2_phy_post_init_v3m_e3 priv t = rcsi2_phtw_write_array priv v3m_e3_post_step1 t"

definition v3u_step1 :: "phtw_value list" where
  "v3u_step1 = [PV 0xcc 0xe2, PV 0 0]"

definition v3u_step2 :: "phtw_value list" where
  "v3u_step2 = [PV 0x01 0xe3, PV 0x11 0xe4, PV 0x01 0xe5, PV 0 0]"

definition v3u_step3 :: "phtw_value list" where
  "v3u_step3 = [PV 0x38 0x08, PV 0 0]"

definition v3u_step4 :: "phtw_value list" where
  "v3u_step4 = [PV 0x01 0x00, PV 0x4b 0xac, PV 0x03 0x00, PV 0x80 0x07, PV 0 0]"

definition rcsi2_init_phtw_v3u :: "rcar_csi2 \<Rightarrow> u32 \<Rightarrow> trace \<Rightarrow> int \<times> trace" where
  "rcsi2_init_phtw_v3u priv mbps' t =
     (case (if mbps' \<noteq> 0 \<and> mbps' \<le> 1500
            then rcsi2_phtw_write_array priv v3u_step1 t
            else rcsi2_phtw_write_mbps priv mbps' phtw_mbps_v3u 0xe2 t) of (ret, t) \<Rightarrow>
      if ret \<noteq> 0 then (ret, t) else
      case rcsi2_phtw_write_array priv v3u_step2 t of (ret, t) \<Rightarrow>
      if ret \<noteq> 0 then (ret, t) else
      case (if mbps' \<noteq> 0 \<and> mbps' \<le> 1500
            then rcsi2_phtw_write_array priv v3u_step3 t
            else (ret, t)) of (ret, t) \<Rightarrow>
      if ret \<noteq> 0 then (ret, t) else
      case rcsi2_phtw_write_array priv v3u_step4 t of (ret, t) \<Rightarrow>
      if ret \<noteq> 0 then (ret, t) else (ret, t))"

definition v4m_step32 :: "phtw_value list" where
  "v4m_step32 = [PV 0x00 0x00, PV 0x00 0xE2, PV 0x00 0xE3, PV 0x01 0xE4, PV 0 0]"

definition v4m_step33 :: "phtw_value list" where
  "v4m_step33 = [PV 0x00 0x00, PV 0x3C 0x08, PV 0 0]"

definition v4m_step36 :: "phtw_value list" where
  "v4m_step36 = [
    PV 0x00 0x00, PV 0x80 0xE0, PV 0x01 0xE1, PV 0x06 0x00, PV 0x0F 0x11, PV 0x08 0x00,
    PV 0x0F 0x11, PV 0x0A 0x00, PV 0x0F 0x11, PV 0x0C 0x00, PV 0x0F 0x11, PV 0x01 0x00,
    PV 0x31 0xAA, PV 0x05 0x00, PV 0x05 0x09, PV 0x07 0x00, PV 0x05 0x09, PV 0x09 0x00,
    PV 0x05 0x09, PV 0x0B 0x00, PV 0x05 0x09, PV 0 0]"

text \<open>The loop over \<^verbatim>\<open>step32\<close> in \<^verbatim>\<open>rcsi2_init_phtw_v4m\<close>; it carries \<^verbatim>\<open>ret\<close>
  along, which keeps its earlier value when the loop body never runs.\<close>

fun rcsi2_init_phtw_v4m_step32 ::
  "rcar_csi2 \<Rightarrow> u16 \<Rightarrow> phtw_value list \<Rightarrow> int \<Rightarrow> trace \<Rightarrow> bool \<times> int \<times> trace" where
  "rcsi2_init_phtw_v4m_step32 priv osc_freq [] ret t = (True, ret, t)"
| "rcsi2_init_phtw_v4m_step32 priv osc_freq (v # vs) ret t =
     (if data v \<noteq> 0 \<or> code v \<noteq> 0
      then case (if code v = 0xE2
                 then rcsi2_phtw_write priv (V4M_PHTW_DIN_DATA_PP osc_freq) (code v) t
                 else if code v = 0xE3
                 then rcsi2_phtw_write priv (V4M_PHTW_DIN_DATA_D osc_freq) (code v) t
                 else rcsi2_phtw_write priv (data v) (code v) t) of (ret, t) \<Rightarrow>
             if ret \<noteq> 0 then (False, ret, t)
             else rcsi2_init_phtw_v4m_step32 priv osc_freq vs ret t
      else (True, ret, t))"

definition rcsi2_init_phtw_v4m :: "rcar_csi2 \<Rightarrow> u32 \<Rightarrow> trace \<Rightarrow> int \<times> trace" where
  "rcsi2_init_phtw_v4m priv mbps' t =
     (case (case hsfreqrange (info priv) of
              None \<Rightarrow> (uninit_ret priv, t)
            | Some tbl \<Rightarrow> rcsi2_set_phypll priv tbl mbps' t) of (ret, t) \<Rightarrow>
      if hsfreqrange (info priv) \<noteq> None \<and> ret \<noteq> 0 then (ret, t) else
      case (case osc_freq_target (info priv) of
              None \<Rightarrow> (uninit_osc_freq priv, t)
            | Some tbl \<Rightarrow> rcsi2_get_osc_freq priv tbl mbps' t) of (osc_freq, t) \<Rightarrow>
      if osc_freq_target (info priv) \<noteq> None \<and> osc_freq = 0 then (ret, t) else
      case rcsi2_init_phtw_v4m_step32 priv osc_freq v4m_step32 ret t of (ok, ret, t) \<Rightarrow>
      if \<not> ok then (ret, t) else
      case (if mbps' \<noteq> 0 \<and> mbps' \<le> 1500
            then rcsi2_phtw_write_array priv v4m_step33 t
            else (ret, t)) of (ret, t) \<Rightarrow>
      if mbps' \<noteq> 0 \<and> mbps' \<le> 1500 \<and> ret \<noteq> 0 then (ret, t) else
      let t = (if csi0clkfreqrange (info priv) \<noteq> 0
               then rcsi2_write priv V4M_CSI0CLKFCPR
                      (V4M_CSI0CLKFREQRANGE (csi0clkfreqrange (info priv))) t
               else t)
      in case rcsi2_read priv PHY_EN t of (read32, t) \<Rightarrow>
      let t = rcsi2_write priv PHY_EN
                (read32 OR (PHY_ENABLE_DCK OR PHY_ENABLE_0 OR PHY_ENABLE_1 OR PHY_ENABLE_2)) t
      in case (if mbps' \<noteq> 0 \<and> 1500 < mbps'
               then rcsi2_phtw_write_array priv v4m_step36 t
               else (ret, t)) of (ret, t) \<Rightarrow>
      (ret, t))"

text \<open>The call through \<^verbatim>\<open>priv->info->init_phtw\<close> and \<^verbatim>\<open>priv->info->phy_post_init\<close>.\<close>

definition call_init_phtw :: "init_phtw_fn \<Rightarrow> rcar_csi2 \<Rightarrow> u32 \<Rightarrow> trace \<Rightarrow> int \<times> trace" where
  "call_init_phtw f priv mbps' t =
     (case f of
        Init_phtw_h3_v3h_m3n \<Rightarrow> rcsi2_init_phtw_h3_v3h_m3n priv mbps' t
      | Init_phtw_h3es2 \<Rightarrow> rcsi2_init_phtw_h3es2 priv mbps' t
      | Init_phtw_v3m_e3 \<Rightarrow> rcsi2_init_phtw_v3m_e3 priv mbps' t
      | Init_phtw_v3u \<Rightarrow> rcsi2_init_phtw_v3u priv mbps' t
      | Init_phtw_v4m \<Rightarrow> rcsi2_init_phtw_v4m priv mbps' t)"

definition call_phy_post_init :: "phy_post_init_fn \<Rightarrow> rcar_csi2 \<Rightarrow> trace \<Rightarrow> int \<times> trace" where
  "call_phy_post_init f priv t =
     (case f of Phy_post_init_v3m_e3 \<Rightarrow> rcsi2_phy_post_init_v3m_e3 priv t)"

subsection \<open>Starting the receiver: R-Car Gen3 and V3U\<close>

text \<open>The loop that packs the channel setup into \<^verbatim>\<open>vcdt\<close> and \<^verbatim>\<open>vcdt2\<close>.\<close>

definition rcsi2_vcdt :: "rcar_csi2 \<Rightarrow> rcar_csi2_format \<Rightarrow> u32 \<times> u32" where
  "rcsi2_vcdt priv format =
     foldl (\<lambda>(vcdt, vcdt2) i.
              let vcdt_part = VCDT_SEL_VC (of_nat i) OR VCDT_VCDTN_EN OR VCDT_SEL_DTN_ON OR
                              VCDT_SEL_DT (format_datatype format)
              in if i < 2 then (vcdt OR push_bit ((i mod 2) * 16) vcdt_part, vcdt2)
                 else (vcdt, vcdt2 OR push_bit ((i mod 2) * 16) vcdt_part))
           (0, 0) [0..<num_channels (info priv)]"

text \<open>\<open>None\<close> is a run that does not return: a division by zero in
  \<^verbatim>\<open>rcsi2_calc_mbps\<close> or, in the V4H, V4M and X5H variants, the dereference of the NULL
  pointer that \<^verbatim>\<open>rcsi2_code_to_fmt\<close> returns for an unknown media bus code.\<close>

definition rcsi2_start_receiver :: "rcar_csi2 \<Rightarrow> trace \<Rightarrow> (int \<times> trace) option" where
  "rcsi2_start_receiver priv t =
     (case rcsi2_code_to_fmt (mbus_code (mf priv)) of
        None \<Rightarrow> Some (- EINVAL, t)
      | Some format \<Rightarrow>
      case rcsi2_vcdt priv format of (vcdt, vcdt2) \<Rightarrow>
      let fld = (if mbus_field (mf priv) = V4L2_FIELD_ALTERNATE
                 then (FLD_DET_SEL 1 OR FLD_FLD_EN4 OR FLD_FLD_EN3 OR FLD_FLD_EN2 OR FLD_FLD_EN) OR
                      (if height (mf priv) = 240 then FLD_FLD_NUM 0 else FLD_FLD_NUM 1)
                 else 0)
      in case rcsi2_get_active_lanes priv t of (ret, lanes', t) \<Rightarrow>
      if ret \<noteq> 0 then Some (ret, t) else
      let phycnt = PHYCNT_ENABLECLK OR (push_bit (unat lanes') 1 - 1)
      in (case rcsi2_calc_mbps priv (bpp format) lanes' t of
        None \<Rightarrow> None
      | Some (mbps', t) \<Rightarrow>
      if mbps' < 0 then Some (mbps', t) else
      let t = rcsi2_write priv INTEN_REG
                (INTEN_INT_AFIFO_OF OR INTEN_INT_ERRSOTHS OR INTEN_INT_ERRSOTSYNCHS) t;
          t = rcsi2_write priv TREF_REG TREF_TREF t;
          t = rcsi2_write priv PHTC_REG 0 t;
          t = (if \<not> no_use_vdt (info priv)
               then (let t = rcsi2_write priv VCDT_REG vcdt t
                     in if vcdt2 \<noteq> 0 then rcsi2_write priv VCDT2_REG vcdt2 t else t)
               else t);
          t = rcsi2_write priv LSWAP_REG
                (LSWAP_L0SEL (ucast (lane_swap priv 0) - 1) OR
                 LSWAP_L1SEL (ucast (lane_swap priv 1) - 1) OR
                 LSWAP_L2SEL (ucast (lane_swap priv 2) - 1) OR
                 LSWAP_L3SEL (ucast (lane_swap priv 3) - 1)) t
      in case (case init_phtw (info priv) of
                 None \<Rightarrow> (0, t)
               | Some f \<Rightarrow> call_init_phtw f priv (word_of_int mbps') t) of (ret, t) \<Rightarrow>
      if ret \<noteq> 0 then Some (ret, t) else
      case (case hsfreqrange (info priv) of
              None \<Rightarrow> (0, t)
            | Some tbl \<Rightarrow> rcsi2_set_phypll priv tbl (word_of_int mbps') t) of (ret, t) \<Rightarrow>
      if ret \<noteq> 0 then Some (ret, t) else
      let t = (if csi0clkfreqrange (info priv) \<noteq> 0
               then rcsi2_write priv CSI0CLKFCPR_REG
                      (CSI0CLKFREQRANGE (csi0clkfreqrange (info priv))) t
               else t);
          t = (if has_phyfrx_reg (info priv)
               then rcsi2_write priv PHYFRX_REG
                      (PHYFRX_FORCERX_MODE_3 OR PHYFRX_FORCERX_MODE_2 OR
                       PHYFRX_FORCERX_MODE_1 OR PHYFRX_FORCERX_MODE_0) t
               else t);
          t = rcsi2_write priv PHYCNT_REG phycnt t;
          t = rcsi2_write priv LINKCNT_REG
                (LINKCNT_MONITOR_EN OR LINKCNT_REG_MONI_PACT_EN OR LINKCNT_ICLK_NONSTOP) t;
          t = rcsi2_write priv FLD_REG fld t;
          t = rcsi2_write priv PHYCNT_REG (phycnt OR PHYCNT_SHUTDOWNZ) t;
          t = rcsi2_write priv PHYCNT_REG (phycnt OR PHYCNT_SHUTDOWNZ OR PHYCNT_RSTZ) t
      in case rcsi2_wait_phy_start priv lanes' t of (ret, t) \<Rightarrow>
      if ret \<noteq> 0 then Some (ret, t) else
      let t = (if has_phyfrx_reg (info priv) then rcsi2_write priv PHYFRX_REG 0 t else t)
      in case (case phy_post_init (info priv) of
                 None \<Rightarrow> (0, t)
               | Some f \<Rightarrow> call_phy_post_init f priv t) of (ret, t) \<Rightarrow>
      if ret \<noteq> 0 then Some (ret, t) else
      let t = (if clear_ulps (info priv)
               then rcsi2_write priv INTSTATE_REG
                      (INTSTATE_INT_ULPS_START OR INTSTATE_INT_ULPS_END) t
               else t)
      in Some (0, t)))"

subsection \<open>C-PHY and D-PHY settings (V4H, V4M)\<close>

text \<open>The table scan of \<^verbatim>\<open>rcsi2_c_phy_setting\<close>: the first entry whose rate is above
  \<^verbatim>\<open>data_rate\<close> (a signed comparison), or the sentinel.\<close>

fun cphy_setting_scan :: "int \<Rightarrow> rcsi2_cphy_setting list \<Rightarrow> rcsi2_cphy_setting" where
  "cphy_setting_scan data_rate [] = CSI2_CPHY_SETTING 0 0 0 0 0 0 0"
| "cphy_setting_scan data_rate (e # es) =
     (if msps e = 0 then e
      else if data_rate < uint (msps e) then e
      else cphy_setting_scan data_rate es)"

text \<open>The calibration poll \<^verbatim>\<open>for (timeout = 10; timeout > 0; --timeout)\<close>; the result
  is the value of \<^verbatim>\<open>timeout\<close> after the loop, 0 when the ready bit never showed.\<close>

fun rcsi2_c_phy_calib_poll :: "nat \<Rightarrow> rcar_csi2 \<Rightarrow> trace \<Rightarrow> nat \<times> trace" where
  "rcsi2_c_phy_calib_poll 0 priv t = (0, t)"
| "rcsi2_c_phy_calib_poll (Suc n) priv t =
     (case rcsi2_read priv ST_PHYST t of (status, t) \<Rightarrow>
        if status AND ST_PHY_READY \<noteq> 0 then (Suc n, t)
        else rcsi2_c_phy_calib_poll n priv (usleep_range 1000 2000 t))"

definition rcsi2_c_phy_setting :: "rcar_csi2 \<Rightarrow> int \<Rightarrow> trace \<Rightarrow> int \<times> trace" where
  "rcsi2_c_phy_setting priv data_rate t =
     (let cphy_setting_value = cphy_setting_scan data_rate cphy_setting_table_r8a779g0
      in if msps cphy_setting_value = 0
         then (- ERANGE, dev_err ''Unsupported PHY speed for mpsp setting (%u Msps)'' t)
         else
      let t = t @ [
            Iowrite16 (CORE_DIG_RW_COMMON 7) 0x0155,
            Iowrite16 (PPI_STARTUP_RW_COMMON_DPHY 7) 0x0068,
            Iowrite16 (PPI_STARTUP_RW_COMMON_DPHY 8) 0x0010,
            Iowrite16 CORE_DIG_CLANE_0_RW_LP_0 0x463C,
            Iowrite16 CORE_DIG_CLANE_1_RW_LP_0 0x463C,
            Iowrite16 CORE_DIG_CLANE_2_RW_LP_0 0x463C,
            Iowrite16 (CORE_DIG_CLANE_0_RW_HS_RX 0) 0x0195,
            Iowrite16 (CORE_DIG_CLANE_1_RW_HS_RX 0) 0x0195,
            Iowrite16 (CORE_DIG_CLANE_2_RW_HS_RX 0) 0x0195,
            Iowrite16 (CORE_DIG_CLANE_0_RW_HS_RX 1) 0x0013,
            Iowrite16 (CORE_DIG_CLANE_1_RW_HS_RX 1) 0x0013,
            Iowrite16 (CORE_DIG_CLANE_2_RW_HS_RX 1) 0x0013,
            Iowrite16 (CORE_DIG_CLANE_0_RW_HS_RX 5) 0x0013,
            Iowrite16 (CORE_DIG_CLANE_1_RW_HS_RX 5) 0x0013,
            Iowrite16 (CORE_DIG_CLANE_2_RW_HS_RX 5) 0x0013,
            Iowrite16 (CORE_DIG_CLANE_0_RW_HS_RX 6) 0x000A,
            Iowrite16 (CORE_DIG_CLANE_1_RW_HS_RX 6) 0x000A,
            Iowrite16 (CORE_DIG_CLANE_2_RW_HS_RX 6) 0x000A,
            Iowrite16 (CORE_DIG_CLANE_0_RW_HS_RX 2) (rw_hs_rx_2 cphy_setting_value),
            Iowrite16 (CORE_DIG_CLANE_1_RW_HS_RX 2) (rw_hs_rx_2 cphy_setting_value),
            Iowrite16 (CORE_DIG_CLANE_2_RW_HS_RX 2) (rw_hs_rx_2 cphy_setting_value),
            Iowrite16 (CORE_DIG_IOCTRL_RW_AFE_LANE0_CTRL_2 2) 0x0001,
            Iowrite16 (CORE_DIG_IOCTRL_RW_AFE_LANE1_CTRL_2 2) 0,
            Iowrite16 (CORE_DIG_IOCTRL_RW_AFE_LANE2_CTRL_2 2) 0x0001,
            Iowrite16 (CORE_DIG_IOCTRL_RW_AFE_LANE3_CTRL_2 2) 0x0001,
            Iowrite16 (CORE_DIG_IOCTRL_RW_AFE_LANE4_CTRL_2 2) 0,
            Iowrite16 (CORE_DIG_RW_TRIO0 0) 0x044A,
            Iowrite16 (CORE_DIG_RW_TRIO1 0) 0x044A,
            Iowrite16 (CORE_DIG_RW_TRIO2 0) 0x044A];
          t = rcsi2_modify16 priv (CORE_DIG_RW_TRIO0 2) (rw_trio_2 cphy_setting_value) (GENMASK 7 0) t;
          t = rcsi2_modify16 priv (CORE_DIG_RW_TRIO1 2) (rw_trio_2 cphy_setting_value) (GENMASK 7 0) t;
          t = rcsi2_modify16 priv (CORE_DIG_RW_TRIO2 2) (rw_trio_2 cphy_setting_value) (GENMASK 7 0) t;
          t = rcsi2_write16 priv (CORE_DIG_RW_TRIO0 1) (rw_trio_1 cphy_setting_value) t;
          t = rcsi2_write16 priv (CORE_DIG_RW_TRIO1 1) (rw_trio_1 cphy_setting_value) t;
          t = rcsi2_write16 priv (CORE_DIG_RW_TRIO2 1) (rw_trio_1 cphy_setting_value) t;
          t = rcsi2_modify16 priv (CORE_DIG_RW_TRIO0 0) (rw_trio_0 cphy_setting_value) (GENMASK 11 9) t;
          t = rcsi2_modify16 priv (CORE_DIG_RW_TRIO1 0) (rw_trio_0 cphy_setting_value) (GENMASK 11 9) t;
          t = rcsi2_modify16 priv (CORE_DIG_RW_TRIO2 0) (rw_trio_0 cphy_setting_value) (GENMASK 11 9) t;
          t = rcsi2_write16 priv CORE_DIG_CLANE_0_RW_LP_0 0x163C t;
          t = rcsi2_write16 priv CORE_DIG_CLANE_1_RW_LP_0 0x163C t;
          t = rcsi2_write16 priv CORE_DIG_CLANE_2_RW_LP_0 0x163C t;
          t = foldl (\<lambda>t i.
                let val = afe_lane0_29 cphy_setting_value OR ucast (hs_receive_eq priv i);
                    t = rcsi2_modify16 priv (hs_receive_reg (cphy_specific_reg ! i)) val
                          (GENMASK 4 0) t;
                    val = afe_lane0_27 cphy_setting_value
                in rcsi2_modify16 priv (ctrl27_reg (cphy_specific_reg ! i)) val (GENMASK 12 10) t)
              t [0..<length cphy_specific_reg];
          t = (if pin_swap priv
               then
                 (let t = rcsi2_write16 priv CORE_DIG_CLANE_1_RW_CFG_0 0xf5 t;
                      t = rcsi2_write16 priv CORE_DIG_CLANE_1_RW_HS_TX_6 0x5000 t
                  in foldl (\<lambda>t i.
                       let val = ucast (push_bit 8 (afe_clane_29_b8 (rcar_csi2_pin_swaps ! i)));
                           t = rcsi2_modify16 priv (pin_swap_reg (cphy_specific_reg ! i)) val
                                 (GENMASK 8 8) t
                       in foldl (\<lambda>t j.
                            if pin_swap_rx_order priv i = ucast (swap_code (rcar_csi2_pin_swaps ! j))
                            then
                              (let val = ucast (rw_cfg0_b2_0 (rcar_csi2_pin_swaps ! j)) OR
                                         ucast (push_bit 3 (rw_cfg0_b3 (rcar_csi2_pin_swaps ! j)))
                               in rcsi2_modify16 priv (rwconf_reg (cphy_specific_reg ! i)) val
                                    (GENMASK 3 0) t)
                            else t)
                          t [0..<length rcar_csi2_pin_swaps])
                     t [0..<length cphy_specific_reg])
               else t);
          t = rcsi2_write priv DPHY_RSTZ (push_bit 0 1) t;
          t = rcsi2_write priv PHY_SHUTDOWNZ (push_bit 0 1) t
      in case rcsi2_c_phy_calib_poll 10 priv t of (timeout, t) \<Rightarrow>
         if timeout = 0 then (- ETIMEDOUT, dev_err ''PHY calibration failed'' t)
         else (0, t))"

definition d_phy_step5 :: "phtw_value list" where
  "d_phy_step5 = [PV 0x00 0x00, PV 0x00 0x1E, PV 0 0]"

fun rcsi2_d_phy_calib_poll :: "nat \<Rightarrow> rcar_csi2 \<Rightarrow> trace \<Rightarrow> nat \<times> trace" where
  "rcsi2_d_phy_calib_poll 0 priv t = (0, t)"
| "rcsi2_d_phy_calib_poll (Suc n) priv t =
     (case rcsi2_read priv V4M_PHTR t of (status, t) \<Rightarrow>
        if (status AND 0xf0000) AND 0x70000 \<noteq> 0 then (Suc n, t)
        else rcsi2_d_phy_calib_poll n priv (usleep_range 1000 2000 t))"

definition rcsi2_d_phy_setting :: "rcar_csi2 \<Rightarrow> int \<Rightarrow> trace \<Rightarrow> int \<times> trace" where
  "rcsi2_d_phy_setting priv data_rate t =
     (let t = rcsi2_write priv DPHY_RSTZ (push_bit 0 1) t;
          t = rcsi2_write priv PHY_SHUTDOWNZ (push_bit 0 1) t
      in case rcsi2_phtw_write_array priv d_phy_step5 t of (ret, t) \<Rightarrow>
      if ret \<noteq> 0 then (ret, t) else
      case rcsi2_d_phy_calib_poll 10 priv t of (timeout, t) \<Rightarrow>
      if timeout = 0 then (- ETIMEDOUT, dev_err ''PHY calibration failed'' t)
      else (0, t))"

subsection \<open>Starting the receiver: V4H, V4M and X5H\<close>

text \<open>
  In \<^verbatim>\<open>rcsi2_start_receiver_v4h\<close> the statement \<^verbatim>\<open>do_div(data_rate, 2.8)\<close> hands the
  macro an \<^verbatim>\<open>int\<close> and a floating constant; the divisor that the macro makes of the
  constant is the field \<open>cphy_base\<close>. The results of \<^verbatim>\<open>rcsi2_c_phy_setting\<close> and
  \<^verbatim>\<open>rcsi2_d_phy_setting\<close> are logged and then dropped: the function ends with
  \<^verbatim>\<open>return 0\<close>.
\<close>

definition rcsi2_start_receiver_v4h :: "rcar_csi2 \<Rightarrow> trace \<Rightarrow> (int \<times> trace) option" where
  "rcsi2_start_receiver_v4h priv t =
     (let format = rcsi2_code_to_fmt (mbus_code (mf priv))
      in case rcsi2_get_active_lanes priv t of (ret, lanes', t) \<Rightarrow>
      if ret \<noteq> 0 then Some (ret, t) else
      Option.bind format (\<lambda>format.
      Option.bind (rcsi2_calc_mbps priv (bpp format) lanes' t) (\<lambda>(data_rate, t).
      if data_rate < 0 then Some (data_rate, t) else
      Option.bind (if cphy_connection priv
                   then map_option (\<lambda>q. sint (ucast q :: u32))
                          (do_div (word_of_int data_rate) (cphy_base priv))
                   else Some data_rate) (\<lambda>data_rate.
      let t = rcsi2_write priv CSI2_RESETN 0 t;
          t = rcsi2_write priv DPHY_RSTZ 0 t;
          t = rcsi2_write priv PHY_SHUTDOWNZ 0 t
      in case rcsi2_read priv PHY_EN t of (read32, t) \<Rightarrow>
      let t = rcsi2_write priv PHY_EN
                (read32 OR (PHY_ENABLE_DCK OR PHY_ENABLE_0 OR PHY_ENABLE_1 OR PHY_ENABLE_2)) t
      in case rcsi2_read priv FRXM t of (read32, t) \<Rightarrow>
      let t = rcsi2_write priv FRXM
                (read32 OR (FRXM_FORCERXMODE_DCK OR FRXM_FORCERXMODE_0 OR
                            FRXM_FORCERXMODE_1 OR FRXM_FORCERXMODE_2)) t
      in case rcsi2_read priv OVR1 t of (read32, t) \<Rightarrow>
      let t = rcsi2_write priv OVR1
                (read32 OR (OVR1_forcerxmode_dck OR OVR1_forcerxmode_0 OR
                            OVR1_forcerxmode_1 OR OVR1_forcerxmode_2)) t;
          t = rcsi2_write priv FLDC 0 t;
          t = rcsi2_write priv FLDD 0 t;
          t = rcsi2_write priv IDIC 0 t;
          t = rcsi2_write priv PHY_MODE (push_bit 0 1) t;
          t = rcsi2_write priv N_LANES (lanes' - 1) t;
          t = rcsi2_write priv CSI2_RESETN (push_bit 0 1) t;
          t = t @ [
            Iowrite16 (PPI_STARTUP_RW_COMMON_DPHY 10) 0x0030,
            Iowrite16 (CORE_DIG_ANACTRL_RW_COMMON_ANACTRL 2) 0x1444,
            Iowrite16 (CORE_DIG_ANACTRL_RW_COMMON_ANACTRL 0) 0x1BFD,
            Iowrite16 PPI_STARTUP_RW_COMMON_STARTUP_1_1 0x0233,
            Iowrite16 (PPI_STARTUP_RW_COMMON_DPHY 6) 0x0027,
            Iowrite16 PPI_CALIBCTRL_RW_COMMON_BG_0 0x01F4,
            Iowrite16 PPI_RW_TERMCAL_CFG_0 0x0013,
            Iowrite16 PPI_RW_OFFSETCAL_CFG_0 0x0003,
            Iowrite16 PPI_RW_LPDCOCAL_TIMEBASE 0x004F,
            Iowrite16 PPI_RW_LPDCOCAL_NREF 0x0320,
            Iowrite16 PPI_RW_LPDCOCAL_NREF_RANGE 0x000F,
            Iowrite16 PPI_RW_LPDCOCAL_TWAIT_CONFIG 0xFE18,
            Iowrite16 PPI_RW_LPDCOCAL_VT_CONFIG 0x0C3C,
            Iowrite16 PPI_RW_LPDCOCAL_COARSE_CFG 0x0105,
            Iowrite16 (CORE_DIG_IOCTRL_RW_AFE_CB_CTRL_2 6) 0x1000,
            Iowrite16 PPI_RW_COMMON_CFG 0x0003,
            Iowrite16 (CORE_DIG_IOCTRL_RW_AFE_CB_CTRL_2 0) 0x0000,
            Iowrite16 (CORE_DIG_IOCTRL_RW_AFE_CB_CTRL_2 1) 0x0400,
            Iowrite16 (CORE_DIG_IOCTRL_RW_AFE_CB_CTRL_2 3) 0x41F6,
            Iowrite16 (CORE_DIG_IOCTRL_RW_AFE_CB_CTRL_2 0) 0x0000,
            Iowrite16 (CORE_DIG_IOCTRL_RW_AFE_CB_CTRL_2 3) 0x43F6,
            Iowrite16 (CORE_DIG_IOCTRL_RW_AFE_CB_CTRL_2 6) 0x3000,
            Iowrite16 (CORE_DIG_IOCTRL_RW_AFE_CB_CTRL_2 7) 0x0000,
            Iowrite16 (CORE_DIG_IOCTRL_RW_AFE_CB_CTRL_2 6) 0x3000,
            Iowrite16 (CORE_DIG_IOCTRL_RW_AFE_CB_CTRL_2 7) 0x0000,
            Iowrite16 (CORE_DIG_IOCTRL_RW_AFE_CB_CTRL_2 6) 0x7000,
            Iowrite16 (CORE_DIG_IOCTRL_RW_AFE_CB_CTRL_2 7) 0x0000,
            Iowrite16 (CORE_DIG_IOCTRL_RW_AFE_CB_CTRL_2 5) 0x4000]
      in if cphy_connection priv
         then (case rcsi2_c_phy_setting priv data_rate t of (ret, t) \<Rightarrow>
                 Some (0, if ret \<noteq> 0 then dev_err ''Setting C-PHY failed'' t else t))
         else (case rcsi2_d_phy_setting priv data_rate t of (ret, t) \<Rightarrow>
                 Some (0, if ret \<noteq> 0 then dev_err ''Setting D-PHY failed'' t else t))))))"

definition rcsi2_start_receiver_v4m :: "rcar_csi2 \<Rightarrow> trace \<Rightarrow> (int \<times> trace) option" where
  "rcsi2_start_receiver_v4m priv t =
     (let format = rcsi2_code_to_fmt (mbus_code (mf priv))
      in case rcsi2_get_active_lanes priv t of (ret, lanes', t) \<Rightarrow>
      if ret \<noteq> 0 then Some (ret, t) else
      Option.bind format (\<lambda>format.
      Option.bind (rcsi2_calc_mbps priv (bpp format) lanes' t) (\<lambda>(data_rate, t).
      if data_rate < 0 then Some (data_rate, t) else
      let t = rcsi2_write priv CSI2_RESETN 0 t;
          t = rcsi2_write priv DPHY_RSTZ 0 t;
          t = rcsi2_write priv PHY_SHUTDOWNZ 0 t;
          t = rcsi2_write priv PHTC_REG PHTC_TESTCLR t
      in case rcsi2_read priv FRXM t of (read32, t) \<Rightarrow>
      let t = rcsi2_write priv FRXM
                (read32 OR (FRXM_FORCERXMODE_0 OR FRXM_FORCERXMODE_1 OR FRXM_FORCERXMODE_2)) t
      in case rcsi2_read priv OVR1 t of (read32, t) \<Rightarrow>
      let t = rcsi2_write priv OVR1
                (read32 OR (OVR1_forcerxmode_0 OR OVR1_forcerxmode_1 OR OVR1_forcerxmode_2)) t;
          t = rcsi2_write priv FLDC 0 t;
          t = rcsi2_write priv FLDD 0 t;
          t = rcsi2_write priv IDIC 0 t;
          t = rcsi2_write priv PHTC_REG 0 t;
          t = rcsi2_write priv CSI2_RESETN (push_bit 0 1) t
      in case (case init_phtw (info priv) of
                 None \<Rightarrow> (0, t)
               | Some f \<Rightarrow> call_init_phtw f priv (word_of_int data_rate) t) of (ret, t) \<Rightarrow>
      if ret \<noteq> 0 then Some (ret, t) else
      if \<not> cphy_connection priv
      then (case rcsi2_d_phy_setting priv data_rate t of (ret, t) \<Rightarrow>
              Some (0, if ret \<noteq> 0 then dev_err ''Setting D-PHY failed'' t else t))
      else Some (- EINVAL, dev_err ''R-Car V4M does not support C-PHY.'' t))))"

definition rcsi2_start_receiver_x5h :: "rcar_csi2 \<Rightarrow> trace \<Rightarrow> (int \<times> trace) option" where
  "rcsi2_start_receiver_x5h priv t =
     (let format = rcsi2_code_to_fmt (mbus_code (mf priv));
          bBypassMode = True;
          bExcludeSP = False;
          bEnableVCFilter = False;
          nVCtoFilter = 0;
          bEnableDTFilter = False;
          nDTtoFilter = 0
      in case rcsi2_get_active_lanes priv t of (ret, lanes', t) \<Rightarrow>
      if ret \<noteq> 0 then Some (ret, t) else
      Option.bind format (\<lambda>format.
      Option.bind (rcsi2_calc_mbps priv (bpp format) lanes' t) (\<lambda>(data_rate, t).
      if data_rate < 0 then Some (data_rate, t) else
      let t = rcsi2_modify priv PWR_UP 0x0 PWR_UP_BIT t;
          t = rcsi2_modify priv PHY_MODE_CFG (if cphy_connection priv then 1 else 0) PHY_MODE_BIT t;
          t = rcsi2_modify priv PHY_MODE_CFG (bpp format) PPI_WIDTH t;
          t = rcsi2_modify priv PHY_DESKEW_CFG 0x0 DESKEW_SYS_CYCLES t;
          t = rcsi2_modify priv SDI_CFG 0x1 SDI_ENABLE t;
          t = rcsi2_modify priv SDI_CFG (if bBypassMode then 0 else 1) SDI_ENCODE_MODE t;
          t = rcsi2_modify priv SDI_FILTER_CFG (if bEnableVCFilter then 1 else 0) SDI_SELECT_VC_EN t;
          t = rcsi2_modify priv SDI_FILTER_CFG nVCtoFilter SDI_SELECT_VC t;
          t = rcsi2_modify priv SDI_FILTER_CFG (if bEnableDTFilter then 1 else 0) SDI_SELECT_DT_EN t;
          t = rcsi2_modify priv SDI_FILTER_CFG nDTtoFilter SDI_SELECT_DT t;
          t = rcsi2_modify priv SDI_FILTER_CFG (if bExcludeSP then 1 else 0) SDI_EXCLUDE_SP t;
          t = rcsi2_modify priv INT_UNMASK_CSI2 0x1 UNMASK_HDR_FATAL_ERR_IRQ t;
          t = rcsi2_modify priv INT_UNMASK_CSI2 0x1 UNMASK_HDR_NON_FATAL_ERR_IRQ t;
          t = rcsi2_modify priv INT_UNMASK_CSI2 0x1 UNMASK_INVALID_RX_LENGTH_ERR_IRQ t;
          t = rcsi2_modify priv INT_UNMASK_CSI2 0x1 UNMASK_CRC_ERR_IRQ t;
          t = rcsi2_modify priv INT_UNMASK_CSI2 0x1 UNMASK_INVALID_DT_ERR_IRQ t;
          t = rcsi2_modify priv INT_UNMASK_CSI2 0x1 UNMASK_MAX_N_DATA_IDS_ERR_IRQ t;
          t = rcsi2_modify priv INT_UNMASK_FRAME 0x1 UNMASK_FRAME_BOUNDARY_ERR_IRQ t;
          t = rcsi2_modify priv INT_UNMASK_FRAME 0x1 UNMASK_FRAME_SEQUENCE_ERR_IRQ t;
          t = rcsi2_modify priv INT_UNMASK_LINE 0x1 UNMASK_LINE_BOUNDARY_ERR_IRQ t;
          t = rcsi2_modify priv INT_UNMASK_LINE 0x1 UNMASK_LINE_SEQUENCE_ERR_IRQ t;
          t = rcsi2_modify priv PWR_UP 0x1 PWR_UP_BIT t
      in Some (0, t))))"

fun rcsi2_wait_phy_start_v4h_poll :: "nat \<Rightarrow> rcar_csi2 \<Rightarrow> trace \<Rightarrow> bool \<times> trace" where
  "rcsi2_wait_phy_start_v4h_poll 0 priv t = (False, t)"
| "rcsi2_wait_phy_start_v4h_poll (Suc n) priv t =
     (case rcsi2_read priv ST_PHYST t of (status, t) \<Rightarrow>
        if status AND ST_STOPSTATE_0 \<noteq> 0 \<and> status AND ST_STOPSTATE_1 \<noteq> 0 \<and>
           status AND ST_STOPSTATE_2 \<noteq> 0 \<and> status AND ST_STOPSTATE_DCK \<noteq> 0
        then (True, t)
        else rcsi2_wait_phy_start_v4h_poll n priv (usleep_range 1000 2000 t))"

definition rcsi2_wait_phy_start_v4h :: "rcar_csi2 \<Rightarrow> trace \<Rightarrow> int \<times> trace" where
  "rcsi2_wait_phy_start_v4h priv t =
     (case rcsi2_wait_phy_start_v4h_poll 10 priv t of (ok, t) \<Rightarrow>
        if ok then (0, t) else (- ETIMEDOUT, t))"

subsection \<open>Start, stop and the stream count\<close>

definition rcsi2_start :: "rcar_csi2 \<Rightarrow> trace \<Rightarrow> (int \<times> trace) option" where
  "rcsi2_start priv t =
     (let t = rcsi2_exit_standby priv t
      in Option.bind
           (if RCAR_VIN_R8A779G0_FEATURE \<in> features (info priv)
            then rcsi2_start_receiver_v4h priv t
            else if RCAR_VIN_R8A779H0_FEATURE \<in> features (info priv)
            then rcsi2_start_receiver_v4m priv t
            else if RCAR_VIN_R8A78000_FEATURE \<in> features (info priv)
            then rcsi2_start_receiver_x5h priv t
            else rcsi2_start_receiver priv t) (\<lambda>(ret, t).
      if ret \<noteq> 0 then Some (ret, rcsi2_enter_standby priv t) else
      case (if RCAR_VIN_R8A78000_FEATURE \<in> features (info priv)
            then csi2cam_start priv t
            else remote_s_stream priv 1 t) of (ret, t) \<Rightarrow>
      if ret \<noteq> 0 then Some (ret, rcsi2_enter_standby priv t) else
      let t = (if RCAR_VIN_R8A779G0_FEATURE \<in> features (info priv) \<or>
                  RCAR_VIN_R8A779H0_FEATURE \<in> features (info priv)
               then snd (rcsi2_wait_phy_start_v4h priv t) else t)
      in if RCAR_VIN_R8A779G0_FEATURE \<in> features (info priv)
         then (case rcsi2_read priv FRXM t of (read32, t) \<Rightarrow>
                 Some (0, rcsi2_write priv FRXM
                            (read32 AND NOT (FRXM_FORCERXMODE_DCK OR FRXM_FORCERXMODE_0 OR
                                             FRXM_FORCERXMODE_1 OR FRXM_FORCERXMODE_2)) t))
         else if RCAR_VIN_R8A779H0_FEATURE \<in> features (info priv)
         then (case rcsi2_read priv FRXM t of (read32, t) \<Rightarrow>
                 Some (0, rcsi2_write priv FRXM
                            (read32 AND NOT (FRXM_FORCERXMODE_0 OR FRXM_FORCERXMODE_1 OR
                                             FRXM_FORCERXMODE_2)) t))
         else Some (0, t)))"

definition rcsi2_stop :: "rcar_csi2 \<Rightarrow> trace \<Rightarrow> trace" where
  "rcsi2_stop priv t =
     (let t = rcsi2_enter_standby priv t
      in if RCAR_VIN_R8A78000_FEATURE \<in> features (info priv)
         then csi2cam_stop priv t
         else snd (remote_s_stream priv 0 t))"

text \<open>\<^verbatim>\<open>rcsi2_s_stream\<close> returns its code with the device record, whose
  \<open>stream_count\<close> it may have changed. The count is a C \<^verbatim>\<open>int\<close>; it is modelled
  without the 32-bit bound.\<close>

definition rcsi2_s_stream ::
  "rcar_csi2 \<Rightarrow> int \<Rightarrow> trace \<Rightarrow> (int \<times> rcar_csi2 \<times> trace) option" where
  "rcsi2_s_stream priv enable t =
     (let t = mutex_lock t
      in if RCAR_VIN_R8A78000_FEATURE \<notin> features (info priv) \<and> remote priv = None
         then Some (- ENODEV, priv, mutex_unlock t)
         else
           Option.bind
             (if enable \<noteq> 0 \<and> stream_count priv = 0 then rcsi2_start priv t
              else if enable = 0 \<and> stream_count priv = 1 then Some (0, rcsi2_stop priv t)
              else Some (0, t)) (\<lambda>(ret, t).
           if ret \<noteq> 0 then Some (ret, priv, mutex_unlock t)
           else Some (ret,
                      priv\<lparr>stream_count := stream_count priv + (if enable \<noteq> 0 then 1 else - 1)\<rparr>,
                      mutex_unlock t)))"

subsection \<open>Interrupt handling\<close>

datatype irqreturn = IRQ_NONE | IRQ_HANDLED | IRQ_WAKE_THREAD

definition rcsi2_irq :: "rcar_csi2 \<Rightarrow> trace \<Rightarrow> irqreturn \<times> trace" where
  "rcsi2_irq priv t =
     (case rcsi2_read priv INTSTATE_REG t of (status, t) \<Rightarrow>
      case rcsi2_read priv INTERRSTATE_REG t of (err_status, t) \<Rightarrow>
      if status = 0 then (IRQ_HANDLED, t) else
      let t = rcsi2_write priv INTSTATE_REG status t
      in if err_status = 0 then (IRQ_HANDLED, t) else
      let t = rcsi2_write priv INTERRSTATE_REG err_status t;
          t = dev_info ''Transfer error, restarting CSI-2 receiver'' t
      in (IRQ_WAKE_THREAD, t))"

definition rcsi2_irq_thread :: "rcar_csi2 \<Rightarrow> trace \<Rightarrow> (irqreturn \<times> trace) option" where
  "rcsi2_irq_thread priv t =
     (let t = mutex_lock t;
          t = rcsi2_stop priv t;
          t = usleep_range 1000 2000 t
      in Option.bind (rcsi2_start priv t) (\<lambda>(ret, t).
      let t = (if ret \<noteq> 0 then dev_warn ''Failed to restart CSI-2 receiver'' t else t);
          t = mutex_unlock t
      in Some (IRQ_HANDLED, t)))"

subsection \<open>Parsing the endpoint\<close>

record v4l2_fwnode_endpoint =
  base_port :: u32
  base_id :: u32
  bus_type :: v4l2_mbus_type
  num_data_lanes :: u16
  data_lanes :: "nat \<Rightarrow> u8"

text \<open>The loop over the four entries of \<^verbatim>\<open>lane_swap\<close>, from index \<open>i\<close> on; it stops at the
  first entry outside 1..4, which it has already stored.\<close>

function rcsi2_parse_lane_swap ::
  "v4l2_fwnode_endpoint \<Rightarrow> nat \<Rightarrow> rcar_csi2 \<Rightarrow> trace \<Rightarrow> int \<times> rcar_csi2 \<times> trace" where
  "rcsi2_parse_lane_swap vep i priv t =
     (if i < 4
      then
        (let priv = priv\<lparr>lane_swap := (lane_swap priv)
                      (i := if i < unat (lanes priv) then data_lanes vep i else of_nat i)\<rparr>
         in if lane_swap priv i < 1 \<or> 4 < lane_swap priv i
            then (- EINVAL, priv, dev_err ''data-lanes must be in 1-4 range'' t)
            else rcsi2_parse_lane_swap vep (i + 1) priv t)
      else (0, priv, t))"
  by pat_completeness auto
termination
  by (relation "measure (\<lambda>(vep, i, priv, t). 4 - i)") auto

definition rcsi2_parse_v4l2 ::
  "rcar_csi2 \<Rightarrow> v4l2_fwnode_endpoint \<Rightarrow> trace \<Rightarrow> int \<times> rcar_csi2 \<times> trace" where
  "rcsi2_parse_v4l2 priv vep t =
     (if base_port vep \<noteq> 0 \<or> base_id vep \<noteq> 0 then (- ENOTCONN, priv, t)
      else if bus_type vep \<noteq> V4L2_MBUS_CSI2_DPHY \<and> bus_type vep \<noteq> V4L2_MBUS_CSI2_CPHY
      then (- EINVAL, priv, dev_err ''Unsupported bus: %u'' t)
      else
        let priv = priv\<lparr>lanes := num_data_lanes vep\<rparr>
        in if bus_type vep = V4L2_MBUS_CSI2_DPHY
           then (if lanes priv \<noteq> 1 \<and> lanes priv \<noteq> 2 \<and> lanes priv \<noteq> 4
                 then (- EINVAL, priv, dev_err ''Unsupported number of data-lanes: %u'' t)
                 else rcsi2_parse_lane_swap vep 0 (priv\<lparr>cphy_connection := False\<rparr>) t)
           else (if lanes priv \<noteq> 3
                 then (- EINVAL, priv, dev_err ''Unsupported number of data-lanes: %u'' t)
                 else rcsi2_parse_lane_swap vep 0 (priv\<lparr>cphy_connection := True\<rparr>) t))"

subsection \<open>The variants\<close>

definition rcar_csi2_info_zero :: rcar_csi2_info where
  "rcar_csi2_info_zero =
     \<lparr>init_phtw = None, phy_post_init = None, hsfreqrange = None, csi0clkfreqrange = 0,
      num_channels = 0, features = {}, clear_ulps = False, no_use_vdt = False,
      has_phyfrx_reg = False, osc_freq_target = None\<rparr>"

definition rcar_csi2_info_r8a7795 :: rcar_csi2_info where
  "rcar_csi2_info_r8a7795 = rcar_csi2_info_zero
     \<lparr>init_phtw := Some Init_phtw_h3_v3h_m3n, hsfreqrange := Some hsfreqrange_h3_v3h_m3n,
      csi0clkfreqrange := 0x20, num_channels := 4, clear_ulps := True\<rparr>"

definition rcar_csi2_info_r8a7795es1 :: rcar_csi2_info where
  "rcar_csi2_info_r8a7795es1 = rcar_csi2_info_zero
     \<lparr>hsfreqrange := Some hsfreqrange_m3w_h3es1, num_channels := 4\<rparr>"

definition rcar_csi2_info_r8a7795es2 :: rcar_csi2_info where
  "rcar_csi2_info_r8a7795es2 = rcar_csi2_info_zero
     \<lparr>init_phtw := Some Init_phtw_h3es2, hsfreqrange := Some hsfreqrange_h3_v3h_m3n,
      csi0clkfreqrange := 0x20, num_channels := 4, clear_ulps := True\<rparr>"

definition rcar_csi2_info_r8a7796 :: rcar_csi2_info where
  "rcar_csi2_info_r8a7796 = rcar_csi2_info_zero
     \<lparr>hsfreqrange := Some hsfreqrange_m3w_h3es1, num_channels := 4\<rparr>"

definition rcar_csi2_info_r8a77965 :: rcar_csi2_info where
  "rcar_csi2_info_r8a77965 = rcar_csi2_info_zero
     \<lparr>init_phtw := Some Init_phtw_h3_v3h_m3n, hsfreqrange := Some hsfreqrange_h3_v3h_m3n,
      csi0clkfreqrange := 0x20, num_channels := 4, clear_ulps := True\<rparr>"

definition rcar_csi2_info_r8a77970 :: rcar_csi2_info where
  "rcar_csi2_info_r8a77970 = rcar_csi2_info_zero
     \<lparr>init_phtw := Some Init_phtw_v3m_e3, phy_post_init := Some Phy_post_init_v3m_e3,
      num_channels := 4\<rparr>"

definition rcar_csi2_info_r8a77980 :: rcar_csi2_info where
  "rcar_csi2_info_r8a77980 = rcar_csi2_info_zero
     \<lparr>init_phtw := Some Init_phtw_h3_v3h_m3n, hsfreqrange := Some hsfreqrange_h3_v3h_m3n,
      csi0clkfreqrange := 0x20, num_channels := 4, clear_ulps := True\<rparr>"

definition rcar_csi2_info_r8a77990 :: rcar_csi2_info where
  "rcar_csi2_info_r8a77990 = rcar_csi2_info_zero
     \<lparr>init_phtw := Some Init_phtw_v3m_e3, phy_post_init := Some Phy_post_init_v3m_e3,
      num_channels := 2\<rparr>"

definition rcar_csi2_info_r8a779g0 :: rcar_csi2_info where
  "rcar_csi2_info_r8a779g0 = rcar_csi2_info_zero
     \<lparr>num_channels := 16, features := {RCAR_VIN_R8A779G0_FEATURE}\<rparr>"

definition rcar_csi2_info_r8a779a0 :: rcar_csi2_info where
  "rcar_csi2_info_r8a779a0 = rcar_csi2_info_zero
     \<lparr>init_phtw := Some Init_phtw_v3u, hsfreqrange := Some hsfreqrange_v3u,
      csi0clkfreqrange := 0x20, num_channels := 4, clear_ulps := True, no_use_vdt := True,
      has_phyfrx_reg := True\<rparr>"

definition rcar_csi2_info_r8a779h0 :: rcar_csi2_info where
  "rcar_csi2_info_r8a779h0 = rcar_csi2_info_zero
     \<lparr>init_phtw := Some Init_phtw_v4m, hsfreqrange := Some hsfreqrange_v4m,
      csi0clkfreqrange := 0x0C, num_channels := 16, features := {RCAR_VIN_R8A779H0_FEATURE},
      osc_freq_target := Some osc_freq_target_v4m\<rparr>"

definition rcar_csi2_info_r8a78000 :: rcar_csi2_info where
  "rcar_csi2_info_r8a78000 = rcar_csi2_info_zero
     \<lparr>init_phtw := Some Init_phtw_v3u, hsfreqrange := Some hsfreqrange_v3u,
      csi0clkfreqrange := 0x20, num_channels := 4, features := {RCAR_VIN_R8A78000_FEATURE},
      clear_ulps := True, no_use_vdt := True, has_phyfrx_reg := True\<rparr>"

subsection \<open>Example devices\<close>

text \<open>
  Concrete devices on which the theorems below are instantiated. The remote sensor of
  the examples has a pixel-rate control, no \<^verbatim>\<open>get_mbus_config\<close> operation and an
  \<^verbatim>\<open>s_stream\<close> operation that succeeds. \<open>rcar_csi2_probed\<close> is the device record as
  \<^verbatim>\<open>rcsi2_probe\<close> leaves it for the given variant after a four-lane D-PHY endpoint with
  the lanes in order was parsed; its hardware answers every poll at once.
\<close>

definition example_remote :: "u64 \<Rightarrow> v4l2_subdev" where
  "example_remote rate =
     \<lparr>pixel_rate = Some rate,
      get_mbus_config = (- ENOIOCTLCMD, V4L2_MBUS_UNKNOWN, 0),
      s_stream = (\<lambda>t enable. 0)\<rparr>"

definition rcar_csi2_probed :: "rcar_csi2_info \<Rightarrow> rcar_csi2" where
  "rcar_csi2_probed i =
     \<lparr>info = i,
      remote = Some (example_remote 148500000),
      mf = \<lparr>width = 1920, height = 1080, mbus_code = MEDIA_BUS_FMT_UYVY8_1X16,
            mbus_field = V4L2_FIELD_NONE\<rparr>,
      stream_count = 0,
      lanes = 4,
      lane_swap = (\<lambda>i. of_nat (i + 1)),
      cphy_connection = False,
      pin_swap = False,
      pin_swap_rx_order = (\<lambda>i. ABC),
      hs_receive_eq = (\<lambda>i. 0x4),
      base = (\<lambda>t r. if r = PHCLM_REG then 1 else if r = PHDLM_REG then 0xf
                      else if r = ST_PHYST then 0x80000087 else if r = V4M_PHTR then 0x70000
                      else 0),
      cam_start = (\<lambda>t. 0),
      cphy_base = 2,
      uninit_ret = 0,
      uninit_osc_freq = 0\<rparr>"

text \<open>A V4H with a three-lane C-PHY sensor whose status register never shows the
  calibration-ready bit (every register reads as zero).\<close>

definition rcar_csi2_v4h_cphy_stuck :: rcar_csi2 where
  "rcar_csi2_v4h_cphy_stuck = (rcar_csi2_probed rcar_csi2_info_r8a779g0)
     \<lparr>remote := Some (example_remote 300000000),
      mf := \<lparr>width = 1920, height = 1080, mbus_code = MEDIA_BUS_FMT_RGB888_1X24,
             mbus_field = V4L2_FIELD_NONE\<rparr>,
      lanes := 3,
      cphy_connection := True,
      base := (\<lambda>t r. 0)\<rparr>"

section \<open>Properties\<close>

lemmas errno_defs = ENODEV_def EINVAL_def ERANGE_def ENOTCONN_def ETIMEDOUT_def ENOIOCTLCMD_def

subsection \<open>The table scan\<close>

lemma mbps_reg_scan_eq:
  "mbps_reg_scan x prev tbl =
     (let A = takeWhile (\<lambda>e. mbps e \<noteq> 0 \<and> ucast (mbps e) < x) tbl;
          B = dropWhile (\<lambda>e. mbps e \<noteq> 0 \<and> ucast (mbps e) < x) tbl
      in (if A = [] then prev else Some (last A), case B of [] \<Rightarrow> MR 0 0 | e # _ \<Rightarrow> e))"
  by (induction tbl arbitrary: prev) (auto simp: Let_def not_le split: list.splits)

lemma uint_ucast_16_32: "uint (ucast (m :: u16) :: u32) = uint m"
  by (simp add: uint_up_ucast is_up)

lemma ucast_less_iff: "(ucast (m :: u16) :: u32) < x \<longleftrightarrow> uint m < uint x"
  by (simp add: word_less_def uint_ucast_16_32)

lemma ucast_le_iff: "x \<le> (ucast (m :: u16) :: u32) \<longleftrightarrow> uint x \<le> uint m"
  by (simp add: word_le_def uint_ucast_16_32)

lemma sub_le_sub_iff:
  fixes x :: u32 and p c :: u16
  assumes "uint p < uint x" "uint x \<le> uint c"
  shows "x - ucast p \<le> ucast c - x \<longleftrightarrow> uint x - uint p \<le> uint c - uint x"
proof -
  have 1: "uint (x - ucast p) = uint x - uint p"
    using assms uint_sub_lem [of "ucast p" x] by (simp add: uint_ucast_16_32)
  have 2: "uint ((ucast c :: u32) - x) = uint c - uint x"
    using assms uint_sub_lem [of x "ucast c :: u32"] by (simp add: uint_ucast_16_32)
  show ?thesis by (simp add: word_le_def 1 2)
qed

text \<open>The choice between the previous entry and the entry the scan stopped at, as the
  three lookups make it.\<close>

lemma nearest_choice:
  fixes x :: u32
  assumes T: "T = A @ cur # B"
    and srt: "sorted_wrt (<) (map mbps T)"
    and A: "\<forall>a\<in>set A. uint (mbps a) < uint x"
    and cur: "uint x \<le> uint (mbps cur)"
  defines "e \<equiv> (case (if A = [] then None else Some (last A)) of
                   None \<Rightarrow> cur
                 | Some p \<Rightarrow> if x - ucast (mbps p) \<le> ucast (mbps cur) - x then p else cur)"
  shows "e \<in> set T \<and>
         (\<forall>e'\<in>set T. \<bar>uint (mbps e) - uint x\<bar> \<le> \<bar>uint (mbps e') - uint x\<bar>) \<and>
         (\<forall>e'\<in>set T. \<bar>uint (mbps e') - uint x\<bar> = \<bar>uint (mbps e) - uint x\<bar> \<longrightarrow>
                      mbps e \<le> mbps e')"
proof -
  have B: "\<forall>b\<in>set B. uint (mbps cur) < uint (mbps b)"
    using srt unfolding T by (auto simp: sorted_wrt_append word_less_def)
  show ?thesis
  proof (cases "A = []")
    case True
    then have "e = cur" by (simp add: e_def)
    then show ?thesis using B cur True unfolding T
      by (auto simp: word_le_def)
  next
    case False
    define p where "p = last A"
    have pA: "p \<in> set A" using False by (simp add: p_def)
    have Ap: "\<forall>a\<in>set A. uint (mbps a) \<le> uint (mbps p)"
    proof
      fix a assume a: "a \<in> set A"
      have split: "A = butlast A @ [p]" using False by (simp add: p_def)
      then have "sorted_wrt (<) (map mbps (butlast A @ [p]))"
        using srt unfolding T by (metis map_append sorted_wrt_append)
      then have "\<forall>b\<in>set (butlast A). mbps b < mbps p"
        by (auto simp: sorted_wrt_append)
      moreover have "a \<in> set (butlast A) \<or> a = p"
        using a split by (metis Un_iff empty_iff empty_set set_ConsD set_append)
      ultimately show "uint (mbps a) \<le> uint (mbps p)"
        by (auto simp: word_less_def)
    qed
    have px: "uint (mbps p) < uint x" using A pA by blast
    have e: "e = (if uint x - uint (mbps p) \<le> uint (mbps cur) - uint x then p else cur)"
      using False sub_le_sub_iff [OF px cur] by (simp add: e_def p_def)
    show ?thesis
    proof (cases "uint x - uint (mbps p) \<le> uint (mbps cur) - uint x")
      case True
      then have "e = p" using e by simp
      then show ?thesis using True pA A Ap B cur px unfolding T
        by (fastforce simp: word_le_def)
    next
      case False
      then have "e = cur" using e by simp
      then show ?thesis using False pA A Ap B cur px unfolding T
        by (fastforce simp: word_le_def)
    qed
  qed
qed

text \<open>On a strictly ascending table whose first threshold is not zero, with the target
  between the first and the last threshold, the scan stops inside the table.\<close>

lemma scan_in_range:
  fixes x :: u32
  assumes srt: "sorted_wrt (<) (map mbps T)" and ne: "T \<noteq> []" and nz: "mbps (hd T) \<noteq> 0"
    and hi: "uint x \<le> uint (mbps (last T))"
  shows "\<exists>A cur B. T = A @ cur # B \<and> (\<forall>a\<in>set A. uint (mbps a) < uint x) \<and>
           uint x \<le> uint (mbps cur) \<and> mbps cur \<noteq> 0 \<and>
           mbps_reg_scan x None (T @ [MR 0 0]) = (if A = [] then None else Some (last A), cur)"
proof -
  let ?P = "\<lambda>e. mbps e \<noteq> 0 \<and> (ucast (mbps e) :: u32) < x"
  have allnz: "\<forall>e\<in>set T. mbps e \<noteq> 0"
  proof
    fix e assume e: "e \<in> set T"
    obtain h tl where T: "T = h # tl" using ne by (cases T) auto
    have "mbps h \<le> mbps e" using e srt unfolding T by auto
    moreover have "mbps h \<noteq> 0" using nz unfolding T by simp
    ultimately show "mbps e \<noteq> 0" by (metis word_le_0_iff)
  qed
  have lastT: "last T \<in> set T" using ne by simp
  have notP: "\<not> ?P (last T)" using hi by (simp add: ucast_less_iff)
  have dw: "dropWhile ?P T \<noteq> []" using lastT notP by auto
  then obtain cur B where cB: "dropWhile ?P T = cur # B" by (cases "dropWhile ?P T") auto
  define A where "A = takeWhile ?P T"
  have T: "T = A @ cur # B" using cB takeWhile_dropWhile_id [of ?P T] by (simp add: A_def)
  have Alt: "\<forall>a\<in>set A. uint (mbps a) < uint x"
  proof
    fix a assume "a \<in> set A"
    then have "?P a" unfolding A_def by (blast dest: set_takeWhileD)
    then show "uint (mbps a) < uint x" by (simp add: ucast_less_iff)
  qed
  have curin: "cur \<in> set T" unfolding T by simp
  have ncur: "\<not> ?P cur" using cB hd_dropWhile [of ?P T] dw by auto
  have curnz: "mbps cur \<noteq> 0" using allnz curin by blast
  have curge: "uint x \<le> uint (mbps cur)" using ncur curnz by (simp add: ucast_less_iff)
  have tw: "takeWhile ?P (T @ [MR 0 0]) = A"
    unfolding A_def using lastT notP by (rule takeWhile_append1)
  have "dropWhile ?P (T @ [MR 0 0]) = dropWhile ?P T @ [MR 0 0]"
    using lastT notP by (rule dropWhile_append1)
  then have dwa: "dropWhile ?P (T @ [MR 0 0]) = cur # B @ [MR 0 0]"
    using cB by simp
  have "mbps_reg_scan x None (T @ [MR 0 0]) = (if A = [] then None else Some (last A), cur)"
    unfolding mbps_reg_scan_eq tw dwa by (simp add: Let_def)
  then show ?thesis using T Alt curge curnz by blast
qed

text \<open>
  C1. For a strictly ascending table \<open>T\<close> (closed by the sentinel) and a target \<open>x\<close> between
  its first and its last threshold, \<^verbatim>\<open>rcsi2_set_phypll\<close> writes, and
  \<^verbatim>\<open>rcsi2_get_osc_freq\<close> returns, the register value of an entry \<open>e\<close> of \<open>T\<close> whose
  threshold is nearest to \<open>x\<close>; among the entries at that distance \<open>e\<close> has the least
  threshold, so a tie between the two neighbours of \<open>x\<close> goes to the lower one. No
  warning and no error is logged.
\<close>

theorem lookup_nearest:
  fixes x :: u32
  assumes "sorted_wrt (<) (map mbps T)" and "T \<noteq> []" and "mbps (hd T) \<noteq> 0"
    and "uint (mbps (hd T)) \<le> uint x" and "uint x \<le> uint (mbps (last T))"
  shows "\<exists>e\<in>set T.
           (\<forall>e'\<in>set T. \<bar>uint (mbps e) - uint x\<bar> \<le> \<bar>uint (mbps e') - uint x\<bar>) \<and>
           (\<forall>e'\<in>set T. \<bar>uint (mbps e') - uint x\<bar> = \<bar>uint (mbps e) - uint x\<bar> \<longrightarrow>
                        mbps e \<le> mbps e') \<and>
           rcsi2_set_phypll priv (T @ [MR 0 0]) x t =
             (0, t @ [Iowrite32 (if RCAR_VIN_R8A779H0_FEATURE \<in> features (info priv)
                                 then V4M_PHYPLL else PHYPLL_REG)
                                (PHYPLL_HSFREQRANGE (reg e))]) \<and>
           rcsi2_get_osc_freq priv (T @ [MR 0 0]) x t = (reg e, t)"
proof -
  obtain A cur B where T: "T = A @ cur # B"
    and A: "\<forall>a\<in>set A. uint (mbps a) < uint x"
    and cur: "uint x \<le> uint (mbps cur)" and curnz: "mbps cur \<noteq> 0"
    and scan: "mbps_reg_scan x None (T @ [MR 0 0]) = (if A = [] then None else Some (last A), cur)"
    using scan_in_range [OF assms(1,2,3,5)] by blast
  define e where "e = (case (if A = [] then None else Some (last A)) of
                         None \<Rightarrow> cur
                       | Some p \<Rightarrow> if x - ucast (mbps p) \<le> ucast (mbps cur) - x then p else cur)"
  have near: "e \<in> set T \<and>
         (\<forall>e'\<in>set T. \<bar>uint (mbps e) - uint x\<bar> \<le> \<bar>uint (mbps e') - uint x\<bar>) \<and>
         (\<forall>e'\<in>set T. \<bar>uint (mbps e') - uint x\<bar> = \<bar>uint (mbps e) - uint x\<bar> \<longrightarrow>
                      mbps e \<le> mbps e')"
    unfolding e_def by (rule nearest_choice [OF T assms(1) A cur])
  have first: "first_mbps (T @ [MR 0 0]) = mbps (hd T)"
    using assms(2) by (cases T) (simp_all add: first_mbps_def)
  have nowarn: "\<not> x < ucast (first_mbps (T @ [MR 0 0]))"
    using assms(4) by (simp add: first word_le_def uint_ucast_16_32 not_less)
  have pll: "rcsi2_set_phypll priv (T @ [MR 0 0]) x t =
             (0, t @ [Iowrite32 (if RCAR_VIN_R8A779H0_FEATURE \<in> features (info priv)
                                 then V4M_PHYPLL else PHYPLL_REG)
                                (PHYPLL_HSFREQRANGE (reg e))])"
    using nowarn curnz
    by (simp add: rcsi2_set_phypll_def scan e_def rcsi2_write_def Let_def split: option.splits)
  have osc: "rcsi2_get_osc_freq priv (T @ [MR 0 0]) x t = (reg e, t)"
    using nowarn curnz
    by (simp add: rcsi2_get_osc_freq_def scan e_def Let_def split: option.splits)
  show ?thesis using near pll osc by blast
qed

text \<open>The example of the specification: thresholds 90, 100, 110 and the target 95, at
  equal distance from 90 and 100; the entry of 90 is taken.\<close>

theorem lookup_nearest_witness:
  "sorted_wrt (<) (map mbps [MR 90 0x10, MR 100 0x20, MR 110 0x30]) \<and>
   uint (mbps (hd [MR 90 0x10, MR 100 0x20, MR 110 0x30])) \<le> uint (95 :: u32) \<and>
   uint (95 :: u32) \<le> uint (mbps (last [MR 90 0x10, MR 100 0x20, MR 110 0x30])) \<and>
   (\<exists>e\<in>set [MR 90 0x10, MR 100 0x20, MR 110 0x30].
      rcsi2_set_phypll (rcar_csi2_probed rcar_csi2_info_r8a7795)
        [MR 90 0x10, MR 100 0x20, MR 110 0x30, MR 0 0] 95 [] =
        (0, [Iowrite32 PHYPLL_REG (PHYPLL_HSFREQRANGE (reg e))]) \<and>
      rcsi2_get_osc_freq (rcar_csi2_probed rcar_csi2_info_r8a7795)
        [MR 90 0x10, MR 100 0x20, MR 110 0x30, MR 0 0] 95 [] = (reg e, [])) \<and>
   rcsi2_get_osc_freq (rcar_csi2_probed rcar_csi2_info_r8a7795)
     [MR 90 0x10, MR 100 0x20, MR 110 0x30, MR 0 0] 95 [] = (0x10, [])"
proof -
  let ?T = "[MR 90 0x10, MR 100 0x20, MR 110 0x30]"
  have h1: "sorted_wrt (<) (map mbps ?T)" by simp
  have h2: "?T \<noteq> []" by simp
  have h3: "mbps (hd ?T) \<noteq> 0" by simp
  have h4: "uint (mbps (hd ?T)) \<le> uint (95 :: u32)" by simp
  have h5: "uint (95 :: u32) \<le> uint (mbps (last ?T))" by simp
  have ev: "rcsi2_get_osc_freq (rcar_csi2_probed rcar_csi2_info_r8a7795)
     [MR 90 0x10, MR 100 0x20, MR 110 0x30, MR 0 0] 95 [] = (0x10, [])"
    by (simp add: rcsi2_get_osc_freq_def first_mbps_def)
  from lookup_nearest [OF h1 h2 h3 h4 h5,
      of "rcar_csi2_probed rcar_csi2_info_r8a7795" "[]"]
  obtain e where "e \<in> set ?T"
    and "rcsi2_set_phypll (rcar_csi2_probed rcar_csi2_info_r8a7795) (?T @ [MR 0 0]) 95 [] =
         (0, [] @ [Iowrite32 (if RCAR_VIN_R8A779H0_FEATURE \<in>
                                 features (info (rcar_csi2_probed rcar_csi2_info_r8a7795))
                              then V4M_PHYPLL else PHYPLL_REG) (PHYPLL_HSFREQRANGE (reg e))])"
    and "rcsi2_get_osc_freq (rcar_csi2_probed rcar_csi2_info_r8a7795) (?T @ [MR 0 0]) 95 [] =
         (reg e, [])"
    by blast
  then have "\<exists>e\<in>set ?T.
      rcsi2_set_phypll (rcar_csi2_probed rcar_csi2_info_r8a7795)
        [MR 90 0x10, MR 100 0x20, MR 110 0x30, MR 0 0] 95 [] =
        (0, [Iowrite32 PHYPLL_REG (PHYPLL_HSFREQRANGE (reg e))]) \<and>
      rcsi2_get_osc_freq (rcar_csi2_probed rcar_csi2_info_r8a7795)
        [MR 90 0x10, MR 100 0x20, MR 110 0x30, MR 0 0] 95 [] = (reg e, [])"
    by (auto simp: rcar_csi2_probed_def rcar_csi2_info_r8a7795_def rcar_csi2_info_zero_def)
  then show ?thesis using h1 h4 h5 ev by blast
qed

end
